theory Spec2Isabelle
  imports Complex_Main "HOL-Library.List_Lexorder" "HOL-Library.Char_ord" "HOL-Library.Multiset"
    "HOL-Library.Log_Nat"
begin

section \<open>mm3\_Compile.py: channel detection, drift estimation and slicing\<close>

text \<open>
  The script \<^verbatim>\<open>mm3_Compile.py\<close> is one straight-line program. Each stage of it is
  embedded below as a function of the values the stage reads, returning the values it
  binds. Calls into numpy, scipy and skimage are embedded by what the call computes on
  the shapes the script gives it; an exception of Python is a value of \<open>py_error\<close>
  (\<open>HelperRaised\<close>: the exception, whatever it is, of a function of
  \<^verbatim>\<open>mm3_helpers.py\<close> that raised).
\<close>

datatype py_error =
    IndexError
  | NameError string
  | TypeError
  | ValueError
  | HelperRaised

subsection \<open>Labelled stacks and region properties (lines 330--335)\<close>

text \<open>
  \<^verbatim>\<open>labelled_align_trap_mask_stack\<close> is an integer array indexed by (frame, row,
  column); 0 is background. \<^verbatim>\<open>measure.regionprops\<close> gives one region for each label
  that occurs, in increasing label order; the script reads \<^verbatim>\<open>.label\<close> and
  \<^verbatim>\<open>.area\<close> (the number of array cells carrying that label) of each.
\<close>

type_synonym label_image = "nat list list"
type_synonym label_stack = "label_image list"

record trap_region =
  label :: nat
  area :: nat

definition stack_cells :: "label_stack \<Rightarrow> nat list" where
  "stack_cells stack = concat (concat stack)"

definition stack_labels :: "label_stack \<Rightarrow> nat list" where
  "stack_labels stack = sort (remdups (filter (\<lambda>v. v \<noteq> 0) (stack_cells stack)))"

definition regionprops_stack :: "label_stack \<Rightarrow> trap_region list" where
  "regionprops_stack stack =
     map (\<lambda>l. \<lparr>label = l, area = count_list (stack_cells stack) l\<rparr>) (stack_labels stack)"

subsection \<open>Modal-area filter (lines 334--347)\<close>

text \<open>
  \<^verbatim>\<open>stats.mode(areas)[0]\<close>: the value that occurs most often; of several such values
  scipy returns the smallest. On an empty array there is no mode, and the loop that would
  compare with it has no iteration.
\<close>

definition most_frequent :: "nat list \<Rightarrow> nat list" where
  "most_frequent xs = filter (\<lambda>x. list_all (\<lambda>y. count_list xs y \<le> count_list xs x) xs) xs"

definition stats_mode :: "nat list \<Rightarrow> nat option" where
  "stats_mode xs = (case sort (most_frequent xs) of [] \<Rightarrow> None | m # _ \<Rightarrow> Some m)"

text \<open>
  \<^verbatim>\<open>
  for trap in align_trap_props:
      if trap.area != mode_area:
          bad_align_trap_props.append(trap.label)
      else:
          good_align_trap_props.append(trap)
  \<close>
  The two lists are the accumulators of the loop.
\<close>

fun split_traps ::
  "nat option \<Rightarrow> trap_region list \<Rightarrow> trap_region list \<times> nat list \<Rightarrow> trap_region list \<times> nat list"
where
  "split_traps mode_area [] (good, bad) = (good, bad)"
| "split_traps mode_area (trap # traps) (good, bad) =
     (if Some (area trap) \<noteq> mode_area
      then split_traps mode_area traps (good, bad @ [label trap])
      else split_traps mode_area traps (good @ [trap], bad))"

definition mode_area :: "trap_region list \<Rightarrow> nat option" where
  "mode_area align_trap_props = stats_mode (map area align_trap_props)"

definition good_align_trap_props :: "trap_region list \<Rightarrow> trap_region list" where
  "good_align_trap_props align_trap_props =
     fst (split_traps (mode_area align_trap_props) align_trap_props ([], []))"

definition bad_align_trap_props :: "trap_region list \<Rightarrow> nat list" where
  "bad_align_trap_props align_trap_props =
     snd (split_traps (mode_area align_trap_props) align_trap_props ([], []))"

text \<open>
  \<^verbatim>\<open>
  for label in bad_align_trap_props:
      labelled_align_trap_mask_stack[labelled_align_trap_mask_stack == label] = 0
  \<close>
\<close>

definition zero_label :: "nat \<Rightarrow> label_stack \<Rightarrow> label_stack" where
  "zero_label l stack = map (map (map (\<lambda>v. if v = l then 0 else v))) stack"

definition remove_bad_labels :: "label_stack \<Rightarrow> label_stack" where
  "remove_bad_labels stack = fold zero_label (bad_align_trap_props (regionprops_stack stack)) stack"

subsection \<open>Reference-crop selection (lines 284--294)\<close>

text \<open>
  \<^verbatim>\<open>centroids\<close> holds one rounded (row, column) pair for each dilated trap region, in
  label order. With no region, \<^verbatim>\<open>np.asarray([])\<close> has one axis and
  \<^verbatim>\<open>centroids[:,0]\<close> raises IndexError.
  \<^verbatim>\<open>
  top_test = centroids[:,0]-256 > 0
  bottom_test = centroids[:,0]+256 < dilated_trap_labels.shape[0]
  test_array = np.stack((top_test,bottom_test))
  good_trap_region_index = np.where(np.all(test_array, axis=1))[0][0]
  centroid = centroids[good_trap_region_index,:].astype('uint16')
  \<close>
  \<^verbatim>\<open>test_array\<close> has shape (2, number of regions): row 0 is \<^verbatim>\<open>top_test\<close>, row 1 is
  \<^verbatim>\<open>bottom_test\<close>. \<^verbatim>\<open>np.all(..., axis=1)\<close> reduces along the second axis, so it has
  one entry for each of the two rows.
\<close>

definition top_test :: "(int \<times> int) list \<Rightarrow> bool list" where
  "top_test centroids = map (\<lambda>c. fst c - 256 > 0) centroids"

definition bottom_test :: "(int \<times> int) list \<Rightarrow> int \<Rightarrow> bool list" where
  "bottom_test centroids shape0 = map (\<lambda>c. fst c + 256 < shape0) centroids"

definition test_array :: "(int \<times> int) list \<Rightarrow> int \<Rightarrow> bool list list" where
  "test_array centroids shape0 = [top_test centroids, bottom_test centroids shape0]"

definition np_all_axis1 :: "bool list list \<Rightarrow> bool list" where
  "np_all_axis1 a = map (\<lambda>row. list_all (\<lambda>b. b) row) a"

definition np_where :: "bool list \<Rightarrow> nat list" where
  "np_where bs = filter (\<lambda>i. bs ! i) [0..<length bs]"

definition good_trap_region_index :: "(int \<times> int) list \<Rightarrow> int \<Rightarrow> py_error + nat" where
  "good_trap_region_index centroids shape0 =
     (if centroids = [] then Inl IndexError
      else case np_where (np_all_axis1 (test_array centroids shape0)) of
             [] \<Rightarrow> Inl IndexError
           | i # _ \<Rightarrow> Inr i)"

definition reference_centroid :: "(int \<times> int) list \<Rightarrow> int \<Rightarrow> py_error + (int \<times> int)" where
  "reference_centroid centroids shape0 =
     (case good_trap_region_index centroids shape0 of
        Inl e \<Rightarrow> Inl e
      | Inr i \<Rightarrow> if i < length centroids then Inr (centroids ! i) else Inl IndexError)"

text \<open>
  What the comments of lines 287 and 292 ask of a region: a (512, 512) crop centred on
  its centroid stays inside the frame. Lines 303--304 take rows and columns
  \<^verbatim>\<open>centroid-256 : centroid+256\<close>.
\<close>

definition crop_rows_in_bounds :: "int \<times> int \<Rightarrow> int \<Rightarrow> bool" where
  "crop_rows_in_bounds c shape0 \<longleftrightarrow> 0 \<le> fst c - 256 \<and> fst c + 256 \<le> shape0"

subsection \<open>64-bit floats\<close>

text \<open>
  The centroids and the shifts are numpy \<^verbatim>\<open>float64\<close> values. A double is a rational
  number, and an arithmetic operation on doubles returns the exact result rounded to the
  nearest double, a tie going to the even significand. \<open>float64\<close> is that rounding, for
  the 53-bit significand, with no bound on the exponent: the values of the script are
  centroids inside a frame and their differences, sums and means, far from overflow and
  from the subnormal range.

  \<^verbatim>\<open>np.round\<close> (and the rounding of a significand) rounds to the nearest integer, a
  half to the even neighbour.
\<close>

definition np_round :: "rat \<Rightarrow> int" where
  "np_round x =
     (let f = \<lfloor>x\<rfloor>; d = x - of_int f
      in if d < 1 / 2 then f else if 1 / 2 < d then f + 1 else if even f then f else f + 1)"

text \<open>The exponent e of a number other than 0: \<open>2 powi e \<le> \<bar>x\<bar> < 2 powi (e + 1)\<close>.\<close>

definition binade :: "rat \<Rightarrow> int" where
  "binade x =
     (let d = bitlen (fst (quotient_of \<bar>x\<bar>)) - bitlen (snd (quotient_of \<bar>x\<bar>))
      in if 2 powi d \<le> \<bar>x\<bar> then d else d - 1)"

definition float64 :: "rat \<Rightarrow> rat" where
  "float64 x =
     (if x = 0 then 0
      else of_int (np_round (x / 2 powi (binade x - 52))) * 2 powi (binade x - 52))"

text \<open>
  \<^verbatim>\<open>np.sum\<close> along an axis that is not the fastest in memory (axis 0 of the (N, 2)
  coordinates of a region, axis 1 of the (F, K, 2) displacements): the elements are added
  one after the other, each addition rounded. \<^verbatim>\<open>np.mean\<close> divides the sum by the
  count, rounded. (The mean of no element is not a number; the script takes none: a
  region has a cell, and the shifts are computed for K > 0 only.)
\<close>

fun np_sum :: "rat list \<Rightarrow> rat" where
  "np_sum [] = 0"
| "np_sum (x # xs) = foldl (\<lambda>s d. float64 (s + d)) x xs"

definition np_mean :: "rat list \<Rightarrow> rat" where
  "np_mean xs = float64 (np_sum xs / of_nat (length xs))"

subsection \<open>Centroids of the accepted regions in each frame (lines 349--351)\<close>

text \<open>
  \<^verbatim>\<open>measure.regionprops\<close> of one frame of the stack: one region for each label that
  occurs in the frame, in increasing label order; \<^verbatim>\<open>.centroid\<close> is the mean (row,
  column) of the cells of the region (\<^verbatim>\<open>coords.mean(axis=0)\<close>), a pair of doubles.
\<close>

type_synonym centroid = "rat \<times> rat"

definition image_labels :: "label_image \<Rightarrow> nat list" where
  "image_labels img = sort (remdups (filter (\<lambda>v. v \<noteq> 0) (concat img)))"

definition label_pixels :: "nat \<Rightarrow> label_image \<Rightarrow> (nat \<times> nat) list" where
  "label_pixels l img =
     concat (map (\<lambda>(r, row). map (\<lambda>(c, v). (r, c)) (filter (\<lambda>(c, v). v = l) (enumerate 0 row)))
                 (enumerate 0 img))"

definition region_centroid :: "(nat \<times> nat) list \<Rightarrow> centroid" where
  "region_centroid pixels =
     (np_mean (map (\<lambda>p. of_nat (fst p)) pixels), np_mean (map (\<lambda>p. of_nat (snd p)) pixels))"

definition frame_centroids :: "label_image \<Rightarrow> centroid list" where
  "frame_centroids img = map (\<lambda>l. region_centroid (label_pixels l img)) (image_labels img)"

definition align_centroids :: "label_stack \<Rightarrow> centroid list list" where
  "align_centroids stack = map frame_centroids (remove_bad_labels stack)"

subsection \<open>Shift of each frame (lines 353--357)\<close>

text \<open>
  \<^verbatim>\<open>
  align_centroids = np.asarray(align_centroids)
  shifts = np.mean(align_centroids - align_centroids[0,:,:], axis=1)
  integer_shifts = np.round(shifts).astype('int16')
  \<close>
  \<^verbatim>\<open>np.asarray\<close> of a list of F lists of K pairs is an array of shape (F, K, 2) when
  every frame has the same number K > 0 of centroids. Otherwise the array has fewer than
  three axes (shape (0,) with no frame, (F, 0) with no centroid at all, and, the lists
  having different lengths, a one-axis array of list objects in the numpy of the
  script's time), and \<^verbatim>\<open>align_centroids[0,:,:]\<close> raises IndexError. (A numpy from 1.24
  on raises ValueError in \<^verbatim>\<open>np.asarray\<close> already for lists of different lengths.)
  The script has no handler around these lines. The subtraction is elementwise, each
  difference rounded to a double.
\<close>

definition displacement :: "centroid \<Rightarrow> centroid \<Rightarrow> centroid" where
  "displacement a b = (float64 (fst a - fst b), float64 (snd a - snd b))"

definition mean_axis1 :: "centroid list \<Rightarrow> centroid" where
  "mean_axis1 ds = (np_mean (map fst ds), np_mean (map snd ds))"

definition shifts :: "centroid list list \<Rightarrow> py_error + centroid list" where
  "shifts cs =
     (case cs of
        [] \<Rightarrow> Inl IndexError
      | c0 # _ \<Rightarrow>
          if list_ex (\<lambda>c. length c \<noteq> length c0) cs then Inl IndexError
          else if c0 = [] then Inl IndexError
          else Inr (map (\<lambda>c. mean_axis1 (map2 displacement c c0)) cs))"

text \<open>\<^verbatim>\<open>.astype('int16')\<close>: a 16-bit signed integer, wrapping outside its range.\<close>

definition int16 :: "int \<Rightarrow> int" where
  "int16 x = (x + 32768) mod 65536 - 32768"

definition integer_shifts :: "centroid list list \<Rightarrow> py_error + (int \<times> int) list" where
  "integer_shifts cs =
     (case shifts cs of
        Inl e \<Rightarrow> Inl e
      | Inr s \<Rightarrow> Inr (map (\<lambda>d. (int16 (np_round (fst d)), int16 (np_round (snd d)))) s))"

subsection \<open>Shifting the bounding boxes (line 363)\<close>

text \<open>
  A bounding box is \<^verbatim>\<open>regionprops\<close>' \<^verbatim>\<open>.bbox\<close>: (min row, min column, max row,
  max column), the maxima exclusive.
\<close>

type_synonym bbox = "int \<times> int \<times> int \<times> int"

text \<open>
  The entry of one box in one frame: the translated box, or \<open>OutOfBounds\<close> (the
  channel is dropped in that frame and a warning is given).
\<close>

datatype shifted_box = Box bbox | OutOfBounds

definition translate :: "bbox \<Rightarrow> int \<times> int \<Rightarrow> bbox" where
  "translate b s =
     (case b of (r0, c0, r1, c1) \<Rightarrow> (r0 + fst s, c0 + snd s, r1 + fst s, c1 + snd s))"

definition inside_frame :: "bbox \<Rightarrow> int \<Rightarrow> bool" where
  "inside_frame b img_size =
     (case b of (r0, c0, r1, c1) \<Rightarrow> 0 \<le> r0 \<and> 0 \<le> c0 \<and> r1 \<le> img_size \<and> c1 \<le> img_size)"

text \<open>
  Modelled from the spec: \<^verbatim>\<open>mm3.shift_bounding_boxes\<close>, a function of
  \<^verbatim>\<open>mm3_helpers.py\<close>, which is not among the sources; only its call at line 363 is.
  After the spec (4.5, 7, 8): each reference box is translated by each frame's shift
  vector; a translated box that falls partly or wholly outside [0, frame dimension) is
  an explicit out-of-bounds condition (the channel is dropped, with a warning), never a
  wrapped or clipped box. The result maps each label to one entry for each frame.
\<close>

definition shift_bounding_boxes ::
  "(nat \<times> bbox) list \<Rightarrow> (int \<times> int) list \<Rightarrow> int \<Rightarrow> (nat \<times> shifted_box list) list"
where
  "shift_bounding_boxes bboxes_dict shift_list img_size =
     map (\<lambda>(l, b). (l, map (\<lambda>s. if inside_frame (translate b s) img_size
                                  then Box (translate b s) else OutOfBounds) shift_list))
         bboxes_dict"

definition bbox_shift_dict ::
  "(nat \<times> bbox) list \<Rightarrow> centroid list list \<Rightarrow> int \<Rightarrow> py_error + (nat \<times> shifted_box list) list"
where
  "bbox_shift_dict good_trap_bboxes_dict cs shape0 =
     (case integer_shifts cs of
        Inl e \<Rightarrow> Inl e
      | Inr s \<Rightarrow> Inr (shift_bounding_boxes good_trap_bboxes_dict s shape0))"

subsection \<open>The metadata table and the trace of a run\<close>

text \<open>
  \<^verbatim>\<open>analyzed_imgs\<close> maps a file name to the metadata of the frame, a dict with the
  keys \<^verbatim>\<open>'fov'\<close>, \<^verbatim>\<open>'t'\<close>, \<^verbatim>\<open>'planes'\<close> (fields \<open>rec_fov\<close>, \<open>rec_t\<close>,
  \<open>rec_planes\<close>), or to \<^verbatim>\<open>False\<close> when the extraction of that file failed. The
  dict is an association list in the dict's iteration order.

  The functions of \<^verbatim>\<open>mm3_helpers.py\<close> are not among the sources. A call of one is
  an event of the trace, carrying the table (and the file list) the script passes to it;
  the trace also holds the messages the script logs.
\<close>

record frame_record =
  rec_fov :: int
  rec_t :: int
  rec_planes :: "string list"

datatype async_result = Returned frame_record | Raised

datatype entry = Metadata frame_record | PyFalse

type_synonym table = "(string \<times> entry) list"

datatype event =
    Information string
  | InformationFmt string int
  | Warning string
  | PickleDump table
  | PprintDump table
  | MakeTimeTable table
  | LoadChannelMasks
  | MakeMasks table
  | TiffStackSliceAndWrite "(string \<times> int) list" table
  | Hdf5StackSliceAndWrite "(string \<times> int) list" table
  | SaveTiffs table

fun is_stack_write :: "event \<Rightarrow> bool" where
  "is_stack_write (TiffStackSliceAndWrite _ _) = True"
| "is_stack_write (Hdf5StackSliceAndWrite _ _) = True"
| "is_stack_write (SaveTiffs _) = True"
| "is_stack_write _ = False"

text \<open>\<^verbatim>\<open>d[k] = v\<close>: a key already in the dict keeps its place, a new key goes last.\<close>

fun dict_set :: "'k \<Rightarrow> 'v \<Rightarrow> ('k \<times> 'v) list \<Rightarrow> ('k \<times> 'v) list" where
  "dict_set k v [] = [(k, v)]"
| "dict_set k v ((k', v') # d) = (if k' = k then (k, v) # d else (k', v') # dict_set k v d)"

text \<open>
  The values of the parameter file and the command line that the stages below read:
  \<^verbatim>\<open>p['compile']['do_metadata']\<close>, \<^verbatim>\<open>['do_time_table']\<close>,
  \<^verbatim>\<open>['do_channel_masks']\<close>, \<^verbatim>\<open>['do_slicing']\<close>,
  \<^verbatim>\<open>['find_channels_method']\<close>, \<^verbatim>\<open>p['output']\<close> (field \<open>p_output\<close>),
  \<^verbatim>\<open>t_end\<close> after line 90 and \<^verbatim>\<open>user_spec_fovs\<close>.
\<close>

record config =
  do_metadata :: bool
  do_time_table :: bool
  do_channel_masks :: bool
  do_slicing :: bool
  find_channels_method :: string
  p_output :: string
  t_end :: "int option"
  user_spec_fovs :: "int list"

subsection \<open>Names bound in the module\<close>

text \<open>
  The names the import statements of lines 2--48 bind, and the names the script assigns
  at top level. A name that is in neither list (and is no builtin) is unbound, and
  evaluating it raises NameError.
\<close>

definition imported_names :: "string list" where
  "imported_names =
     [''print_function'', ''sys'', ''os'', ''time'', ''inspect'', ''argparse'', ''yaml'', ''glob'',
      ''re'', ''io'', ''measure'', ''morphology'', ''stats'', ''pprint'', ''pickle'',
      ''multiprocessing'', ''Pool'', ''np'', ''warnings'', ''h5py'', ''models'', ''tiff'', ''mm3'']"

definition assigned_names :: "string list" where
  "assigned_names =
     [''cmd_folder'', ''cmd_subfolder'', ''parser'', ''namespace'', ''param_file_path'', ''p'',
      ''user_spec_fovs'', ''t_end'', ''analyzed_imgs'', ''tiff_metadata'', ''found_files'', ''n'',
      ''ifile'', ''string'', ''fitered_files'', ''fov_id'', ''fov_string'', ''pool'', ''fn'',
      ''result'', ''model_file_path'', ''model'', ''file_names'', ''trap_align_metadata'',
      ''dilator'', ''stack_weights'', ''imgPath'', ''img'', ''first_frame_trap_prediction'',
      ''class_predictions'', ''traps'', ''trap_labels'', ''trap_props'', ''trap_area_threshold'',
      ''trap_bboxes'', ''first_frame_trap_mask'', ''i'', ''bbox'', ''good_trap_labels'',
      ''good_trap_props'', ''dilated_traps'', ''dilated_trap_labels'', ''dilated_trap_props'',
      ''centroids'', ''top_test'', ''bottom_test'', ''test_array'', ''good_trap_region_index'',
      ''centroid'', ''align_region_stack'', ''frame'', ''frame_img'', ''batch_size'',
      ''align_region_predictions'', ''align_region_class_predictions'', ''align_traps'',
      ''align_trap_mask_stack'', ''frame_trap_labels'', ''frame_trap_props'',
      ''labelled_align_trap_mask_stack'', ''align_trap_props'', ''areas'', ''labels'',
      ''good_align_trap_props'', ''bad_align_trap_props'', ''mode_area'', ''trap'', ''label'',
      ''align_centroids'', ''shifts'', ''integer_shifts'', ''good_trap_bboxes_dict'',
      ''bbox_shift_dict'', ''trap_images_dict'', ''trap_closed_end_px_dict'', ''time_table'',
      ''channel_masks'', ''fov'', ''peaks'', ''send_to_write'']"

definition module_globals :: "string list" where
  "module_globals = imported_names @ assigned_names"

subsection \<open>Image parameters, peaks method (lines 141--176)\<close>

text \<open>
  \<^verbatim>\<open>
  if len(found_files) > 0:
      mm3.information("Found %d image files." % len(found_files))
  else:
      mm3.warning('No TIFF files found')
  \<close>
\<close>

definition report_found_files :: "string list \<Rightarrow> event" where
  "report_found_files found_files =
     (if length found_files > 0
      then InformationFmt ''Found %d image files.'' (int (length found_files))
      else Warning ''No TIFF files found'')"

text \<open>
  The pool: a job is a file name with the outcome of \<^verbatim>\<open>mm3.get_tif_params\<close> on it
  in a worker (it returned the metadata, or it raised); \<^verbatim>\<open>found_files\<close> are the file
  names of the jobs.
  \<^verbatim>\<open>
  for fn in found_files:
      analyzed_imgs[fn] = pool.apply_async(mm3.get_tif_params, args=(fn, True))
  ...
  for fn in analyzed_imgs.keys():
      result = analyzed_imgs[fn]
      if result.successful():
          analyzed_imgs[fn] = result.get()
      else:
          analyzed_imgs[fn] = False
  \<close>
\<close>

definition apply_async_all :: "(string \<times> async_result) list \<Rightarrow> (string \<times> async_result) list" where
  "apply_async_all jobs = fold (\<lambda>job d. dict_set (fst job) (snd job) d) jobs []"

definition get_result :: "async_result \<Rightarrow> entry" where
  "get_result result = (case result of Returned m \<Rightarrow> Metadata m | Raised \<Rightarrow> PyFalse)"

definition get_results :: "(string \<times> async_result) list \<Rightarrow> table" where
  "get_results d = map (\<lambda>kv. (fst kv, get_result (snd kv))) d"

definition find_image_parameters_peaks :: "(string \<times> async_result) list \<Rightarrow> event list \<times> table" where
  "find_image_parameters_peaks jobs =
     ([report_found_files (map fst jobs),
       Information ''Waiting for image analysis pool to be finished.'',
       Information ''Image analyses pool finished, getting results.''],
      get_results (apply_async_all jobs))"

subsection \<open>Image parameters, Unet method (lines 199--204)\<close>

text \<open>
  \<^verbatim>\<open>
  for fn in found_files:
      analyzed_imgs[fn] = mm3.get_initial_tif_params(fn)
  \<close>
  The call is made in the loop itself (the pool and the collection of its results are
  commented out, lines 196, 207 and 218--223): when it raises for a file, the exception
  leaves the loop and the script, and nothing is stored for that file. A job is a file
  name with the outcome of the call on it.
\<close>

fun get_initial_params_all :: "(string \<times> async_result) list \<Rightarrow> table \<Rightarrow> py_error + table" where
  "get_initial_params_all [] analyzed_imgs = Inr analyzed_imgs"
| "get_initial_params_all ((fn, Raised) # jobs) analyzed_imgs = Inl HelperRaised"
| "get_initial_params_all ((fn, Returned m) # jobs) analyzed_imgs =
     get_initial_params_all jobs (dict_set fn (Metadata m) analyzed_imgs)"

definition find_image_parameters_unet :: "(string \<times> async_result) list \<Rightarrow> py_error + table" where
  "find_image_parameters_unet jobs = get_initial_params_all jobs []"

subsection \<open>Frame order, Unet method (lines 227--231)\<close>

text \<open>
  \<^verbatim>\<open>
  file_names = [key for key in analyzed_imgs.keys()]
  file_names.sort() # sort the file names by time
  trap_align_metadata = {'first_frame_name': file_names[0], ...
  \<close>
  The sort compares the names as strings.
\<close>

definition file_names :: "table \<Rightarrow> string list" where
  "file_names analyzed_imgs = sort (map fst analyzed_imgs)"

definition first_frame_name :: "table \<Rightarrow> py_error + string" where
  "first_frame_name analyzed_imgs =
     (case file_names analyzed_imgs of [] \<Rightarrow> Inl IndexError | f # _ \<Rightarrow> Inr f)"

text \<open>\<^verbatim>\<open>analyzed_imgs[fn]['t']\<close>, where it is defined.\<close>

definition frame_t :: "table \<Rightarrow> string \<Rightarrow> int option" where
  "frame_t analyzed_imgs fn =
     (case map_of analyzed_imgs fn of Some (Metadata m) \<Rightarrow> Some (rec_t m) | _ \<Rightarrow> None)"

subsection \<open>Saving the metadata, time table, channel masks (lines 370--396)\<close>

definition save_metadata :: "table \<Rightarrow> event list" where
  "save_metadata analyzed_imgs =
     [Information ''Saving metadata from analyzed images...'',
      PickleDump analyzed_imgs,
      PprintDump analyzed_imgs,
      Information ''Saved metadata from analyzed images.'']"

definition time_table :: "config \<Rightarrow> table \<Rightarrow> event list" where
  "time_table cfg analyzed_imgs =
     (if \<not> do_time_table cfg then [Information ''Skipping time table creation.'']
      else [MakeTimeTable analyzed_imgs])"

text \<open>\<^verbatim>\<open>if t_end:\<close> holds for an integer other than 0, not for \<^verbatim>\<open>None\<close>.\<close>

definition truthy :: "int option \<Rightarrow> bool" where
  "truthy x = (case x of None \<Rightarrow> False | Some n \<Rightarrow> n \<noteq> 0)"

text \<open>
  \<^verbatim>\<open>
  analyzed_imgs = {fn : i_metadata for fn, i_metadata in six.iteritems(analyzed_imgs) if
                   i_metadata['t'] <= t_end}
  \<close>
  \<^verbatim>\<open>six\<close> is looked up first. Were it bound, the comprehension would subscript every
  value, which raises TypeError on \<^verbatim>\<open>False\<close>.
\<close>

fun t_end_filter :: "table \<Rightarrow> int \<Rightarrow> py_error + table" where
  "t_end_filter [] te = Inr []"
| "t_end_filter ((fn, PyFalse) # d) te = Inl TypeError"
| "t_end_filter ((fn, Metadata m) # d) te =
     (case t_end_filter d te of
        Inl e \<Rightarrow> Inl e
      | Inr r \<Rightarrow> Inr (if rec_t m \<le> te then (fn, Metadata m) # r else r))"

definition make_channel_masks :: "config \<Rightarrow> table \<Rightarrow> event list \<times> (py_error + table)" where
  "make_channel_masks cfg analyzed_imgs =
     (if \<not> do_channel_masks cfg \<and> do_slicing cfg then ([LoadChannelMasks], Inr analyzed_imgs)
      else if do_channel_masks cfg then
        (if truthy (t_end cfg) then
           (if ''six'' \<in> set module_globals then
              (case t_end_filter analyzed_imgs (the (t_end cfg)) of
                 Inl e \<Rightarrow> ([], Inl e)
               | Inr filtered \<Rightarrow> ([MakeMasks filtered], Inr filtered))
            else ([], Inl (NameError ''six'')))
         else ([MakeMasks analyzed_imgs], Inr analyzed_imgs))
      else ([], Inr analyzed_imgs))"

subsection \<open>Slicing (lines 399--436)\<close>

text \<open>
  \<^verbatim>\<open>
  send_to_write = [[k, v['t']] for k, v in six.iteritems(analyzed_imgs) if v['fov'] == fov]
  send_to_write = sorted(send_to_write, key=lambda time: time[1])
  \<close>
  \<^verbatim>\<open>v['fov']\<close> raises TypeError when \<^verbatim>\<open>v\<close> is \<^verbatim>\<open>False\<close>. \<^verbatim>\<open>sorted\<close> is stable,
  as \<open>sort_key\<close> is.
\<close>

fun fov_items :: "table \<Rightarrow> int \<Rightarrow> py_error + (string \<times> int) list" where
  "fov_items [] fov = Inr []"
| "fov_items ((k, PyFalse) # d) fov = Inl TypeError"
| "fov_items ((k, Metadata v) # d) fov =
     (case fov_items d fov of
        Inl e \<Rightarrow> Inl e
      | Inr r \<Rightarrow> Inr (if rec_fov v = fov then (k, rec_t v) # r else r))"

definition send_to_write :: "table \<Rightarrow> int \<Rightarrow> py_error + (string \<times> int) list" where
  "send_to_write analyzed_imgs fov =
     (case fov_items analyzed_imgs fov of Inl e \<Rightarrow> Inl e | Inr r \<Rightarrow> Inr (sort_key snd r))"

text \<open>
  The body of \<^verbatim>\<open>for fov, peaks in six.iteritems(channel_masks)\<close>, lines 408--426, over
  the items of \<^verbatim>\<open>channel_masks\<close> (what \<^verbatim>\<open>mm3.make_masks\<close> or
  \<^verbatim>\<open>mm3.load_channel_masks\<close> returned).
\<close>

fun slice_fovs :: "config \<Rightarrow> table \<Rightarrow> (int \<times> 'p) list \<Rightarrow> event list \<times> py_error option" where
  "slice_fovs cfg analyzed_imgs [] = ([], None)"
| "slice_fovs cfg analyzed_imgs ((fov, peaks) # rest) =
     (if user_spec_fovs cfg \<noteq> [] \<and> fov \<notin> set (user_spec_fovs cfg)
      then slice_fovs cfg analyzed_imgs rest
      else case send_to_write analyzed_imgs fov of
             Inl e \<Rightarrow> ([InformationFmt ''Loading images for FOV %03d.'' fov], Some e)
           | Inr stw \<Rightarrow>
               (case slice_fovs cfg analyzed_imgs rest of
                  (evs, r) \<Rightarrow>
                    (InformationFmt ''Loading images for FOV %03d.'' fov
                       # (if p_output cfg = ''TIFF'' then [TiffStackSliceAndWrite stw analyzed_imgs]
                          else if p_output cfg = ''HDF5'' then [Hdf5StackSliceAndWrite stw analyzed_imgs]
                          else [])
                       @ evs, r)))"

text \<open>
  \<^verbatim>\<open>trap_images_dict\<close> is assigned at line 365 only, in the Unet branch of the
  metadata stage, which runs when \<^verbatim>\<open>do_metadata\<close> is set.
\<close>

definition slicing :: "config \<Rightarrow> table \<Rightarrow> (int \<times> 'p) list \<Rightarrow> event list \<times> py_error option" where
  "slicing cfg analyzed_imgs channel_masks =
     (if \<not> do_slicing cfg then ([], None)
      else if find_channels_method cfg = ''peaks'' then
        (if ''six'' \<in> set module_globals then
           (case slice_fovs cfg analyzed_imgs channel_masks of
              (evs, None) \<Rightarrow>
                (Information ''Saving channel slices.'' # evs @ [Information ''Channel slices saved.''], None)
            | (evs, Some e) \<Rightarrow> (Information ''Saving channel slices.'' # evs, Some e))
         else ([Information ''Saving channel slices.''], Some (NameError ''six'')))
      else if find_channels_method cfg = ''Unet'' then
        (if p_output cfg = ''TIFF'' then
           (if do_metadata cfg then
              ([Information ''Saving channel slices.'', SaveTiffs analyzed_imgs,
                Information ''Channel slices saved.''], None)
            else ([Information ''Saving channel slices.''], Some (NameError ''trap_images_dict'')))
         else ([Information ''Saving channel slices.'', Information ''Channel slices saved.''], None))
      else ([Information ''Saving channel slices.'', Information ''Channel slices saved.''], None))"

text \<open>Lines 379--436 in sequence; an exception ends the run.\<close>

definition run_after_metadata :: "config \<Rightarrow> table \<Rightarrow> (int \<times> 'p) list \<Rightarrow> event list \<times> py_error option" where
  "run_after_metadata cfg analyzed_imgs channel_masks =
     (case make_channel_masks cfg analyzed_imgs of
        (ev2, Inl e) \<Rightarrow> (time_table cfg analyzed_imgs @ ev2, Some e)
      | (ev2, Inr imgs) \<Rightarrow>
          (case slicing cfg imgs channel_masks of
             (ev3, r) \<Rightarrow> (time_table cfg analyzed_imgs @ ev2 @ ev3, r)))"

section \<open>Properties\<close>

subsection \<open>The modal-area filter\<close>

lemma split_traps_eq:
  "split_traps m traps (good, bad) =
     (good @ filter (\<lambda>t. Some (area t) = m) traps,
      bad @ map label (filter (\<lambda>t. Some (area t) \<noteq> m) traps))"
  by (induction traps arbitrary: good bad) auto

lemma good_align_trap_props_eq:
  "good_align_trap_props ps = filter (\<lambda>t. Some (area t) = mode_area ps) ps"
  by (simp add: good_align_trap_props_def split_traps_eq)

lemma bad_align_trap_props_eq:
  "bad_align_trap_props ps = map label (filter (\<lambda>t. Some (area t) \<noteq> mode_area ps) ps)"
  by (simp add: bad_align_trap_props_def split_traps_eq)

lemma most_frequent_nonempty: "xs \<noteq> [] \<Longrightarrow> most_frequent xs \<noteq> []"
proof -
  assume ne: "xs \<noteq> []"
  define c where "c = Max (count_list xs ` set xs)"
  have fin: "finite (count_list xs ` set xs)" by simp
  have nonempty: "count_list xs ` set xs \<noteq> {}" using ne by simp
  from Max_in [OF fin nonempty] obtain x where x: "x \<in> set xs" "count_list xs x = c"
    unfolding c_def by auto
  have "\<forall>y \<in> set xs. count_list xs y \<le> count_list xs x"
    using x(2) fin unfolding c_def by simp
  with x(1) have "x \<in> set (most_frequent xs)"
    by (simp add: most_frequent_def list_all_iff)
  then show ?thesis by auto
qed

lemma stats_mode_Some:
  assumes "stats_mode xs = Some m"
  shows "m \<in> set xs" and "count_list xs a \<le> count_list xs m"
    and "(\<forall>b. count_list xs b \<le> count_list xs m') \<and> m' \<in> set xs \<Longrightarrow> m \<le> m'"
proof -
  from assms obtain rest where s: "sort (most_frequent xs) = m # rest"
    by (auto simp: stats_mode_def split: list.splits)
  then have "m \<in> set (sort (most_frequent xs))" by simp
  then have mf: "m \<in> set (most_frequent xs)" by simp
  then show mx: "m \<in> set xs" by (simp add: most_frequent_def)
  from mf have le: "\<forall>y \<in> set xs. count_list xs y \<le> count_list xs m"
    by (simp add: most_frequent_def list_all_iff)
  show "count_list xs a \<le> count_list xs m"
  proof (cases "a \<in> set xs")
    case True
    with le show ?thesis by blast
  next
    case False
    then show ?thesis by (simp add: count_list_0_iff)
  qed
  show "m \<le> m'" if h: "(\<forall>b. count_list xs b \<le> count_list xs m') \<and> m' \<in> set xs"
  proof -
    from h have "m' \<in> set (most_frequent xs)" by (simp add: most_frequent_def list_all_iff)
    then have "m' \<in> set (sort (most_frequent xs))" by simp
    moreover have "sorted (m # rest)" using sorted_sort [of "most_frequent xs"] s by simp
    ultimately show ?thesis using s by auto
  qed
qed

lemma stats_mode_nonempty: "xs \<noteq> [] \<Longrightarrow> \<exists>m. stats_mode xs = Some m"
proof -
  assume "xs \<noteq> []"
  then have "most_frequent xs \<noteq> []" by (rule most_frequent_nonempty)
  then have "sort (most_frequent xs) \<noteq> []"
    by (metis length_sort length_0_conv)
  then show ?thesis by (auto simp: stats_mode_def split: list.splits)
qed

lemma fold_zero_label:
  "fold zero_label ls stack = map (map (map (\<lambda>v. if v \<in> set ls then 0 else v))) stack"
proof (induction ls arbitrary: stack)
  case Nil
  show ?case by (simp add: map_idI)
next
  case (Cons l ls)
  have "fold zero_label (l # ls) stack = fold zero_label ls (zero_label l stack)"
    by simp
  also have "\<dots> = map (map (map (\<lambda>v. if v \<in> set ls then 0 else v))) (zero_label l stack)"
    by (rule Cons.IH)
  also have "\<dots> = map (map (map (\<lambda>v. if v \<in> set (l # ls) then 0 else v))) stack"
    by (simp add: zero_label_def comp_def)
  finally show ?case .
qed

lemma map3_cong:
  "(\<And>v. v \<in> set (stack_cells stack) \<Longrightarrow> f v = g v) \<Longrightarrow>
   map (map (map f)) stack = map (map (map g)) stack"
  by (auto simp: stack_cells_def intro!: map_cong)

lemma set_bad_labels:
  "set (bad_align_trap_props (regionprops_stack stack)) =
     {v \<in> set (stack_cells stack). v \<noteq> 0 \<and>
        Some (count_list (stack_cells stack) v) \<noteq> mode_area (regionprops_stack stack)}"
proof -
  define M where "M = mode_area (regionprops_stack stack)"
  define cs where "cs = stack_cells stack"
  have props: "set (regionprops_stack stack) =
      (\<lambda>l. \<lparr>label = l, area = count_list cs l\<rparr>) ` {v \<in> set cs. v \<noteq> 0}"
    by (auto simp: regionprops_stack_def stack_labels_def cs_def)
  have "set (bad_align_trap_props (regionprops_stack stack)) =
      label ` {t \<in> set (regionprops_stack stack). Some (area t) \<noteq> M}"
    by (simp add: bad_align_trap_props_eq M_def)
  also have "\<dots> = {v \<in> set cs. v \<noteq> 0 \<and> Some (count_list cs v) \<noteq> M}"
    unfolding props by force
  finally show ?thesis by (simp add: M_def cs_def)
qed

lemma remove_bad_labels_eq:
  "remove_bad_labels stack =
     map (map (map (\<lambda>v. if Some (count_list (stack_cells stack) v) = mode_area (regionprops_stack stack)
                         then v else 0))) stack"
  unfolding remove_bad_labels_def fold_zero_label
  by (rule map3_cong) (auto simp: set_bad_labels)

text \<open>
  Claim C1. Of the regions of the whole labelled stack, the script keeps exactly those
  whose area equals the modal area and records the label of every other one as bad; the
  modal area is an area that occurs at least as often as any other; after the bad labels
  have been zeroed, a cell of the stack keeps its label only if the area of that label
  is the modal area. For the areas 100, 100, 100, 55 the mode is 100 and the region of
  area 55 is the one excluded.
\<close>

theorem modal_area_filter:
  "good_align_trap_props ps = filter (\<lambda>t. Some (area t) = mode_area ps) ps
   \<and> bad_align_trap_props ps = map label (filter (\<lambda>t. Some (area t) \<noteq> mode_area ps) ps)
   \<and> (ps \<noteq> [] \<longrightarrow>
        (\<exists>m. mode_area ps = Some m \<and> m \<in> set (map area ps)
           \<and> (\<forall>a. count_list (map area ps) a \<le> count_list (map area ps) m)))
   \<and> remove_bad_labels stack =
        map (map (map (\<lambda>v. if Some (count_list (stack_cells stack) v) = mode_area (regionprops_stack stack)
                            then v else 0))) stack
   \<and> mode_area [\<lparr>label = 1, area = 100\<rparr>, \<lparr>label = 2, area = 100\<rparr>,
                 \<lparr>label = 3, area = 100\<rparr>, \<lparr>label = 4, area = 55\<rparr>] = Some 100
   \<and> good_align_trap_props [\<lparr>label = 1, area = 100\<rparr>, \<lparr>label = 2, area = 100\<rparr>,
                 \<lparr>label = 3, area = 100\<rparr>, \<lparr>label = 4, area = 55\<rparr>]
        = [\<lparr>label = 1, area = 100\<rparr>, \<lparr>label = 2, area = 100\<rparr>, \<lparr>label = 3, area = 100\<rparr>]
   \<and> bad_align_trap_props [\<lparr>label = 1, area = 100\<rparr>, \<lparr>label = 2, area = 100\<rparr>,
                 \<lparr>label = 3, area = 100\<rparr>, \<lparr>label = 4, area = 55\<rparr>] = [4]"
proof -
  have mode_ex: "ps \<noteq> [] \<longrightarrow>
        (\<exists>m. mode_area ps = Some m \<and> m \<in> set (map area ps)
           \<and> (\<forall>a. count_list (map area ps) a \<le> count_list (map area ps) m))"
  proof
    assume "ps \<noteq> []"
    then have "map area ps \<noteq> []" by simp
    then obtain m where m: "stats_mode (map area ps) = Some m"
      using stats_mode_nonempty by blast
    from stats_mode_Some(1,2) [OF m] show "\<exists>m. mode_area ps = Some m \<and> m \<in> set (map area ps)
           \<and> (\<forall>a. count_list (map area ps) a \<le> count_list (map area ps) m)"
      using m unfolding mode_area_def by blast
  qed
  have inst: "mode_area [\<lparr>label = 1, area = 100\<rparr>, \<lparr>label = 2, area = 100\<rparr>,
                 \<lparr>label = 3, area = 100\<rparr>, \<lparr>label = 4, area = 55\<rparr>] = Some 100"
    by (simp add: mode_area_def stats_mode_def most_frequent_def)
  show ?thesis
    using mode_ex inst
    by (simp add: good_align_trap_props_eq bad_align_trap_props_eq remove_bad_labels_eq)
qed

theorem modal_area_filter_witness:
  "[\<lparr>label = 1, area = 2\<rparr>, \<lparr>label = 2, area = 2\<rparr>, \<lparr>label = 3, area = 1\<rparr>] \<noteq> []
   \<and> regionprops_stack [[[1, 1, 0, 2], [2, 0, 0, 3]]]
        = [\<lparr>label = 1, area = 2\<rparr>, \<lparr>label = 2, area = 2\<rparr>, \<lparr>label = 3, area = 1\<rparr>]
   \<and> mode_area [\<lparr>label = 1, area = 2\<rparr>, \<lparr>label = 2, area = 2\<rparr>, \<lparr>label = 3, area = 1\<rparr>] = Some 2
   \<and> good_align_trap_props [\<lparr>label = 1, area = 2\<rparr>, \<lparr>label = 2, area = 2\<rparr>, \<lparr>label = 3, area = 1\<rparr>]
        = [\<lparr>label = 1, area = 2\<rparr>, \<lparr>label = 2, area = 2\<rparr>]
   \<and> bad_align_trap_props [\<lparr>label = 1, area = 2\<rparr>, \<lparr>label = 2, area = 2\<rparr>, \<lparr>label = 3, area = 1\<rparr>] = [3]
   \<and> remove_bad_labels [[[1, 1, 0, 2], [2, 0, 0, 3]]] = [[[1, 1, 0, 2], [2, 0, 0, 0]]]"
proof -
  have m: "mode_area [\<lparr>label = 1, area = 2\<rparr>, \<lparr>label = 2, area = 2\<rparr>, \<lparr>label = 3, area = 1\<rparr>] = Some 2"
    by (simp add: mode_area_def stats_mode_def most_frequent_def)
  have r: "regionprops_stack [[[1, 1, 0, 2], [2, 0, 0, 3]]]
        = [\<lparr>label = 1, area = 2\<rparr>, \<lparr>label = 2, area = 2\<rparr>, \<lparr>label = 3, area = 1\<rparr>]"
    by (simp add: regionprops_stack_def stack_labels_def stack_cells_def)
  show ?thesis
    using modal_area_filter [of "[\<lparr>label = 1, area = 2\<rparr>, \<lparr>label = 2, area = 2\<rparr>, \<lparr>label = 3, area = 1\<rparr>]"
        "[[[1, 1, 0, 2], [2, 0, 0, 3]]]"] m r
    by (simp add: stack_cells_def)
qed

subsection \<open>Reference-crop selection\<close>

text \<open>
  Claim C2. The claim asks for the first region whose crop stays inside the frame. With
  three regions at rows 100, 200 and 1000 in a frame of 2048 rows, every region passes
  \<^verbatim>\<open>bottom_test\<close> and not every region passes \<^verbatim>\<open>top_test\<close>, so
  \<^verbatim>\<open>np.all(test_array, axis=1)\<close> is (False, True) and the script takes region 1, whose
  crop would start at row -56; region 2, whose crop fits, is passed over. With rows 100,
  1000, 2000 neither test holds for every region and the script raises IndexError
  although the crop of region 1 fits.
\<close>

theorem reference_crop_selection_at_failing_input:
  "good_trap_region_index [(100, 1024), (200, 1024), (1000, 1024)] 2048 = Inr 1
   \<and> reference_centroid [(100, 1024), (200, 1024), (1000, 1024)] 2048 = Inr (200, 1024)
   \<and> \<not> crop_rows_in_bounds (100, 1024) 2048
   \<and> \<not> crop_rows_in_bounds (200, 1024) 2048
   \<and> crop_rows_in_bounds (1000, 1024) 2048
   \<and> good_trap_region_index [(100, 1024), (1000, 1024), (2000, 1024)] 2048 = Inl IndexError"
  by (simp add: good_trap_region_index_def reference_centroid_def np_where_def np_all_axis1_def
      test_array_def top_test_def bottom_test_def crop_rows_in_bounds_def upt_rec)

subsection \<open>Rounding to a double\<close>

lemma np_round_nearest: "\<bar>of_int (np_round x) - x\<bar> \<le> 1 / 2"
proof -
  have "of_int \<lfloor>x\<rfloor> \<le> x" "x < of_int \<lfloor>x\<rfloor> + 1" by linarith+
  then show ?thesis
    by (auto simp: np_round_def Let_def abs_le_iff)
qed

lemma np_round_range:
  assumes "of_int a \<le> x" "x \<le> of_int b"
  shows "a \<le> np_round x \<and> np_round x \<le> b"
proof -
  have fl: "a \<le> \<lfloor>x\<rfloor>" "\<lfloor>x\<rfloor> \<le> b" using assms by (simp_all add: le_floor_iff floor_le_iff)
  have up: "\<lfloor>x\<rfloor> + 1 \<le> b" if "x - of_int \<lfloor>x\<rfloor> \<ge> 1 / 2"
  proof -
    from that have "of_int \<lfloor>x\<rfloor> < x" by linarith
    with assms(2) have "of_int \<lfloor>x\<rfloor> < (of_int b :: rat)" by linarith
    then have "\<lfloor>x\<rfloor> < b" by simp
    then show ?thesis by simp
  qed
  show ?thesis
    using fl up by (auto simp: np_round_def Let_def)
qed

lemma int16_id: "- 32768 \<le> x \<Longrightarrow> x < 32768 \<Longrightarrow> int16 x = x"
  by (simp add: int16_def)

lemma binade_lower:
  assumes "x \<noteq> 0"
  shows "2 powi binade x \<le> \<bar>x\<bar>"
proof -
  define p where "p = fst (quotient_of \<bar>x\<bar>)"
  define q where "q = snd (quotient_of \<bar>x\<bar>)"
  define d where "d = bitlen p - bitlen q"
  have pq: "quotient_of \<bar>x\<bar> = (p, q)" by (simp add: p_def q_def)
  have q0: "0 < q" using quotient_of_denom_pos [OF pq] .
  have ax: "\<bar>x\<bar> = of_int p / of_int q" using quotient_of_div [OF pq] .
  have "0 < \<bar>x\<bar>" using assms by simp
  with ax q0 have p0: "0 < p" by (simp add: zero_less_divide_iff)
  have b: "binade x = (if 2 powi d \<le> \<bar>x\<bar> then d else d - 1)"
    by (simp add: binade_def Let_def d_def p_def q_def)
  show ?thesis
  proof (cases "2 powi d \<le> \<bar>x\<bar>")
    case True
    then show ?thesis by (simp add: b)
  next
    case False
    from bitlen_bounds [OF p0] have lp: "2 ^ nat (bitlen p - 1) \<le> p" by simp
    from bitlen_bounds [OF q0] have uq: "q < 2 ^ nat (bitlen q)" by simp
    have bp: "1 \<le> bitlen p" using p0 bitlen_eq_zero_iff [of p] bitlen_nonneg [of p] by linarith
    have bq: "0 \<le> bitlen q" by (rule bitlen_nonneg)
    have lp': "(2::rat) ^ nat (bitlen p - 1) \<le> of_int p"
    proof -
      have "(of_int (2 ^ nat (bitlen p - 1)) :: rat) \<le> of_int p" using lp by (simp only: of_int_le_iff)
      then show ?thesis by simp
    qed
    have uq': "(of_int q :: rat) \<le> 2 ^ nat (bitlen q)"
    proof -
      have "(of_int q :: rat) \<le> of_int (2 ^ nat (bitlen q))" using uq by (simp only: of_int_le_iff less_imp_le)
      then show ?thesis by simp
    qed
    have "d - 1 = (bitlen p - 1) - bitlen q" by (simp add: d_def)
    then have "(2::rat) powi (d - 1) = 2 powi (bitlen p - 1) / 2 powi (bitlen q)"
      by (simp add: power_int_diff)
    also have "\<dots> = 2 ^ nat (bitlen p - 1) / 2 ^ nat (bitlen q)"
      using bp bq by (simp add: power_int_def)
    also have "\<dots> \<le> of_int p / of_int q"
      using lp' uq' q0 p0 by (intro frac_le) simp_all
    finally show ?thesis using False by (simp add: b ax)
  qed
qed

lemma float64_error: "\<bar>float64 x - x\<bar> \<le> \<bar>x\<bar> / 2 ^ 53"
proof (cases "x = 0")
  case True
  then show ?thesis by (simp add: float64_def)
next
  case False
  define u :: rat where "u = 2 powi (binade x - 52)"
  have u0: "0 < u" by (simp add: u_def)
  have f: "float64 x = of_int (np_round (x / u)) * u"
    using False by (simp add: float64_def u_def)
  have "float64 x - x = (of_int (np_round (x / u)) - x / u) * u"
    using u0 by (simp add: f algebra_simps)
  then have "\<bar>float64 x - x\<bar> = \<bar>of_int (np_round (x / u)) - x / u\<bar> * u"
    using u0 by (simp add: abs_mult)
  also have "\<dots> \<le> (1 / 2) * u"
    using np_round_nearest [of "x / u"] u0 by (intro mult_right_mono) simp_all
  also have "(1 / 2) * u = 2 powi binade x / 2 ^ 53"
  proof -
    have "u = 2 powi binade x / 2 powi 52" by (simp add: u_def power_int_diff)
    then show ?thesis by simp
  qed
  also have "\<dots> \<le> \<bar>x\<bar> / 2 ^ 53"
    using binade_lower [OF False] by (simp add: divide_right_mono)
  finally show ?thesis .
qed


lemma foldl_float64_error:
  fixes B c s e :: rat
  assumes dB: "\<forall>d \<in> set ds. \<bar>d\<bar> \<le> B"
    and c: "c = 2 * of_nat N * B / 2 ^ 53"
    and cB: "c \<le> B"
    and jN: "j + length ds \<le> N"
    and se: "\<bar>s - e\<bar> \<le> of_nat j * c"
    and eB: "\<bar>e\<bar> \<le> of_nat j * B"
  shows "\<bar>foldl (\<lambda>s d. float64 (s + d)) s ds - (e + sum_list ds)\<bar> \<le> of_nat (j + length ds) * c"
  using dB jN se eB
proof (induction ds arbitrary: j s e)
  case Nil
  then show ?case by simp
next
  case (Cons d ds)
  have dB': "\<bar>d\<bar> \<le> B" using Cons.prems(1) by simp
  have jc: "of_nat j * c \<le> of_nat j * B" using cB by (intro mult_left_mono) simp_all
  have B0: "0 \<le> B" using dB' by linarith
  have "2 * j + 1 \<le> 2 * N" using Cons.prems(2) by simp
  then have "(of_nat (2 * j + 1) :: rat) \<le> of_nat (2 * N)" by (simp only: of_nat_le_iff)
  then have jN': "(2 * of_nat j + 1) * B \<le> 2 * of_nat N * B"
    using B0 by (intro mult_right_mono) simp_all
  have "\<bar>s + d\<bar> \<le> \<bar>s - e\<bar> + \<bar>e\<bar> + \<bar>d\<bar>" by linarith
  also have "\<dots> \<le> of_nat j * c + of_nat j * B + B"
    using Cons.prems(3,4) dB' by linarith
  also have "\<dots> \<le> (2 * of_nat j + 1) * B" using jc by (simp add: algebra_simps)
  also have "\<dots> \<le> 2 * of_nat N * B" by (rule jN')
  finally have sd: "\<bar>s + d\<bar> \<le> 2 * of_nat N * B" .
  have "\<bar>float64 (s + d) - (s + d)\<bar> \<le> \<bar>s + d\<bar> / 2 ^ 53" by (rule float64_error)
  also have "\<dots> \<le> 2 * of_nat N * B / 2 ^ 53" using sd by (intro divide_right_mono) simp_all
  also have "\<dots> = c" by (simp only: c)
  finally have st: "\<bar>float64 (s + d) - (s + d)\<bar> \<le> c" .
  have se': "\<bar>float64 (s + d) - (e + d)\<bar> \<le> of_nat (Suc j) * c"
  proof -
    have "\<bar>float64 (s + d) - (e + d)\<bar> \<le> \<bar>float64 (s + d) - (s + d)\<bar> + \<bar>s - e\<bar>" by linarith
    also have "\<dots> \<le> c + of_nat j * c" using st Cons.prems(3) by linarith
    finally show ?thesis by (simp add: algebra_simps)
  qed
  have eB': "\<bar>e + d\<bar> \<le> of_nat (Suc j) * B"
  proof -
    have "\<bar>e + d\<bar> \<le> \<bar>e\<bar> + \<bar>d\<bar>" by linarith
    also have "\<dots> \<le> of_nat j * B + B" using Cons.prems(4) dB' by linarith
    finally show ?thesis by (simp add: algebra_simps)
  qed
  have dB'': "\<forall>d \<in> set ds. \<bar>d\<bar> \<le> B" using Cons.prems(1) by simp
  have jN'': "Suc j + length ds \<le> N" using Cons.prems(2) by simp
  from Cons.IH [OF dB'' jN'' se' eB']
  show ?case by (simp add: add.assoc)
qed

lemma sum_list_abs_bound:
  fixes B :: rat
  assumes "\<forall>d \<in> set ds. \<bar>d\<bar> \<le> B"
  shows "\<bar>sum_list ds\<bar> \<le> of_nat (length ds) * B"
  using assms
proof (induction ds)
  case Nil
  then show ?case by simp
next
  case (Cons d ds)
  then have "\<bar>sum_list ds\<bar> \<le> of_nat (length ds) * B" "\<bar>d\<bar> \<le> B" by simp_all
  then have "\<bar>d + sum_list ds\<bar> \<le> B + of_nat (length ds) * B" by linarith
  then show ?case by (simp add: algebra_simps)
qed

lemma np_sum_error:
  fixes B :: rat
  assumes dB: "\<forall>d \<in> set ds. \<bar>d\<bar> \<le> B"
    and K: "2 * of_nat (length ds) \<le> (2::rat) ^ 53"
  shows "\<bar>np_sum ds - sum_list ds\<bar> \<le> of_nat (length ds) * (2 * of_nat (length ds) * B / 2 ^ 53)"
proof (cases ds)
  case Nil
  then show ?thesis by simp
next
  case (Cons x xs)
  define c where "c = 2 * of_nat (length ds) * B / (2::rat) ^ 53"
  have B0: "0 \<le> B" using dB Cons by (auto intro: order_trans [OF abs_ge_zero])
  have "2 * of_nat (length ds) * B \<le> 2 ^ 53 * B"
    using K B0 by (intro mult_right_mono) simp_all
  then have cB: "c \<le> B" by (simp add: c_def pos_divide_le_eq mult.commute)
  have c0: "0 \<le> c" using B0 by (simp add: c_def)
  have dB': "\<forall>d \<in> set xs. \<bar>d\<bar> \<le> B" and xB: "\<bar>x\<bar> \<le> B" using dB Cons by simp_all
  have jN: "1 + length xs \<le> length ds" using Cons by simp
  have se: "\<bar>x - x\<bar> \<le> of_nat 1 * c" using c0 by simp
  have eB: "\<bar>x\<bar> \<le> of_nat 1 * B" using xB by simp
  from foldl_float64_error [OF dB' c_def cB jN se eB]
  have "\<bar>foldl (\<lambda>s d. float64 (s + d)) x xs - (x + sum_list xs)\<bar> \<le> of_nat (1 + length xs) * c" .
  then show ?thesis using Cons by (simp add: c_def)
qed

lemma np_mean_error:
  fixes B :: rat
  assumes ne: "ds \<noteq> []"
    and dB: "\<forall>d \<in> set ds. \<bar>d\<bar> \<le> B"
    and K: "2 * of_nat (length ds) \<le> (2::rat) ^ 53"
  shows "\<bar>np_mean ds - sum_list ds / of_nat (length ds)\<bar> \<le> (2 * of_nat (length ds) + 2) * B / 2 ^ 53"
proof -
  define n :: rat where "n = of_nat (length ds)"
  define c where "c = 2 * n * B / (2::rat) ^ 53"
  have n0: "0 < n" using ne by (simp add: n_def)
  have B0: "0 \<le> B"
  proof -
    from ne obtain x where "x \<in> set ds" by (cases ds) auto
    with dB have "\<bar>x\<bar> \<le> B" by blast
    then show ?thesis by linarith
  qed
  have "2 * n * B \<le> 2 ^ 53 * B" using K B0 unfolding n_def by (intro mult_right_mono) simp_all
  then have cB: "c \<le> B" by (simp add: c_def pos_divide_le_eq mult.commute)
  have serr: "\<bar>np_sum ds - sum_list ds\<bar> \<le> n * c"
    using np_sum_error [OF dB K] by (simp add: n_def c_def)
  have sabs: "\<bar>sum_list ds\<bar> \<le> n * B"
    using sum_list_abs_bound [OF dB] by (simp add: n_def)
  have "n * c \<le> n * B" using cB n0 by (intro mult_left_mono) simp_all
  with serr sabs have "\<bar>np_sum ds\<bar> \<le> n * B + n * B" by linarith
  then have "\<bar>np_sum ds\<bar> \<le> (2 * B) * n" by (simp add: algebra_simps)
  then have q: "\<bar>np_sum ds / n\<bar> \<le> 2 * B"
    using n0 by (simp add: pos_divide_le_eq)
  have "\<bar>np_mean ds - np_sum ds / n\<bar> \<le> \<bar>np_sum ds / n\<bar> / 2 ^ 53"
    unfolding np_mean_def n_def by (rule float64_error)
  also have "\<dots> \<le> 2 * B / 2 ^ 53" using q by (simp add: divide_right_mono)
  finally have 1: "\<bar>np_mean ds - np_sum ds / n\<bar> \<le> 2 * B / 2 ^ 53" .
  have "np_sum ds / n - sum_list ds / n = (np_sum ds - sum_list ds) / n"
    by (simp add: diff_divide_distrib)
  then have "\<bar>np_sum ds / n - sum_list ds / n\<bar> = \<bar>np_sum ds - sum_list ds\<bar> / n"
    using n0 by simp
  also have "\<dots> \<le> (n * c) / n" using serr n0 by (intro divide_right_mono) simp_all
  also have "\<dots> = c" using n0 by simp
  finally have 2: "\<bar>np_sum ds / n - sum_list ds / n\<bar> \<le> c" .
  have "\<bar>np_mean ds - sum_list ds / n\<bar> \<le> 2 * B / 2 ^ 53 + c" using 1 2 by linarith
  also have "2 * B / 2 ^ 53 + c = (2 * n + 2) * B / 2 ^ 53"
    by (simp add: c_def algebra_simps add_divide_distrib)
  finally show ?thesis by (simp add: n_def)
qed


lemma sum_list_float64_error:
  fixes xs :: "rat list"
  assumes "\<forall>x \<in> set xs. \<bar>x\<bar> \<le> 512"
  shows "\<bar>sum_list (map float64 xs) - sum_list xs\<bar> \<le> of_nat (length xs) * (512 / 2 ^ 53)"
  using assms
proof (induction xs)
  case Nil
  then show ?case by simp
next
  case (Cons x xs)
  then have ih: "\<bar>sum_list (map float64 xs) - sum_list xs\<bar> \<le> of_nat (length xs) * (512 / 2 ^ 53)"
    and x: "\<bar>x\<bar> \<le> 512" by simp_all
  have "\<bar>float64 x - x\<bar> \<le> \<bar>x\<bar> / 2 ^ 53" by (rule float64_error)
  also have "\<dots> \<le> 512 / 2 ^ 53" using x by (intro divide_right_mono) simp_all
  finally have "\<bar>float64 x - x\<bar> \<le> 512 / 2 ^ 53" .
  with ih have "\<bar>(float64 x + sum_list (map float64 xs)) - (x + sum_list xs)\<bar>
      \<le> 512 / 2 ^ 53 + of_nat (length xs) * (512 / 2 ^ 53)" by linarith
  then show ?case by (simp add: algebra_simps)
qed

lemma float64_abs_513:
  assumes "\<bar>x\<bar> \<le> 512"
  shows "\<bar>float64 x\<bar> \<le> 513"
proof -
  have "\<bar>float64 x - x\<bar> \<le> \<bar>x\<bar> / 2 ^ 53" by (rule float64_error)
  also have "\<dots> \<le> 512 / 2 ^ 53" using assms by (intro divide_right_mono) simp_all
  also have "\<dots> \<le> 1" by simp
  finally show ?thesis using assms by linarith
qed

lemma float_mean_close:
  fixes xs :: "rat list"
  assumes ne: "xs \<noteq> []"
    and bound: "\<forall>x \<in> set xs. \<bar>x\<bar> \<le> 512"
    and K: "length xs \<le> 262144"
  shows "\<bar>np_mean (map float64 xs) - sum_list xs / of_nat (length xs)\<bar> \<le> 1 / 2 ^ 23"
    and "\<bar>sum_list xs / of_nat (length xs)\<bar> \<le> 512"
proof -
  define n :: rat where "n = of_nat (length xs)"
  have n0: "0 < n" using ne by (simp add: n_def)
  have nK: "n \<le> 262144"
  proof -
    have "(of_nat (length xs) :: rat) \<le> of_nat 262144" using K by (simp only: of_nat_le_iff)
    then show ?thesis by (simp add: n_def)
  qed
  have dB: "\<forall>d \<in> set (map float64 xs). \<bar>d\<bar> \<le> 513"
    using bound by (auto intro: float64_abs_513)
  have K': "2 * of_nat (length (map float64 xs)) \<le> (2::rat) ^ 53"
    using nK by (simp add: n_def)
  have ne': "map float64 xs \<noteq> []" using ne by simp
  from np_mean_error [OF ne' dB K']
  have 1: "\<bar>np_mean (map float64 xs) - sum_list (map float64 xs) / n\<bar> \<le> (2 * n + 2) * 513 / 2 ^ 53"
    by (simp add: n_def)
  have "sum_list (map float64 xs) / n - sum_list xs / n = (sum_list (map float64 xs) - sum_list xs) / n"
    by (simp add: diff_divide_distrib)
  then have "\<bar>sum_list (map float64 xs) / n - sum_list xs / n\<bar>
      = \<bar>sum_list (map float64 xs) - sum_list xs\<bar> / n"
    using n0 by simp
  also have "\<dots> \<le> (n * (512 / 2 ^ 53)) / n"
    using sum_list_float64_error [OF bound] n0 unfolding n_def
    by (intro divide_right_mono) simp_all
  also have "\<dots> = 512 / 2 ^ 53" using n0 by simp
  finally have 2: "\<bar>sum_list (map float64 xs) / n - sum_list xs / n\<bar> \<le> 512 / 2 ^ 53" .
  have "(2 * n + 2) * 513 + 512 \<le> 2 ^ 30" using nK by simp
  then have 3: "((2 * n + 2) * 513 + 512) / 2 ^ 53 \<le> 2 ^ 30 / 2 ^ 53"
    by (intro divide_right_mono) simp_all
  have "\<bar>np_mean (map float64 xs) - sum_list xs / n\<bar> \<le> (2 * n + 2) * 513 / 2 ^ 53 + 512 / 2 ^ 53"
    using 1 2 by linarith
  also have "\<dots> = ((2 * n + 2) * 513 + 512) / 2 ^ 53" by (simp add: add_divide_distrib)
  also have "\<dots> \<le> 2 ^ 30 / 2 ^ 53" by (rule 3)
  also have "\<dots> = 1 / 2 ^ 23" by simp
  finally show "\<bar>np_mean (map float64 xs) - sum_list xs / of_nat (length xs)\<bar> \<le> 1 / 2 ^ 23"
    by (simp add: n_def)
  have "\<bar>sum_list xs\<bar> \<le> n * 512" using sum_list_abs_bound [OF bound] by (simp add: n_def)
  then have "\<bar>sum_list xs\<bar> / n \<le> 512" using n0 by (simp add: pos_divide_le_eq mult.commute)
  then show "\<bar>sum_list xs / of_nat (length xs)\<bar> \<le> 512" using n0 by (simp add: n_def)
qed

lemma sum_list_nth_sum: "sum_list (map g xs) = (\<Sum>k<length xs. g (xs ! k))"
  by (simp add: sum_list_sum_nth atLeast0LessThan)

lemma mean_axis1_displacement:
  assumes lc: "length c = K" and lc0: "length c0 = K" and K0: "0 < K" and KB: "K \<le> 262144"
    and bc: "\<forall>p \<in> set c. 0 \<le> fst p \<and> fst p \<le> 512 \<and> 0 \<le> snd p \<and> snd p \<le> 512"
    and bc0: "\<forall>p \<in> set c0. 0 \<le> fst p \<and> fst p \<le> 512 \<and> 0 \<le> snd p \<and> snd p \<le> 512"
  shows "\<bar>fst (mean_axis1 (map2 displacement c c0)) - (\<Sum>k<K. fst (c ! k) - fst (c0 ! k)) / of_nat K\<bar> \<le> 1 / 2 ^ 23"
    and "\<bar>snd (mean_axis1 (map2 displacement c c0)) - (\<Sum>k<K. snd (c ! k) - snd (c0 ! k)) / of_nat K\<bar> \<le> 1 / 2 ^ 23"
    and "\<bar>(\<Sum>k<K. fst (c ! k) - fst (c0 ! k)) / of_nat K\<bar> \<le> 512"
    and "\<bar>(\<Sum>k<K. snd (c ! k) - snd (c0 ! k)) / of_nat K\<bar> \<le> 512"
proof -
  define xr where "xr = map (\<lambda>p. fst (fst p) - fst (snd p)) (zip c c0)"
  define xc where "xc = map (\<lambda>p. snd (fst p) - snd (snd p)) (zip c c0)"
  have l: "length (zip c c0) = K" using lc lc0 by simp
  have lr: "length xr = K" and lcn: "length xc = K" using lc lc0 by (simp_all add: xr_def xc_def)
  have fr: "map fst (map2 displacement c c0) = map float64 xr"
    by (simp add: xr_def displacement_def case_prod_unfold)
  have fc: "map snd (map2 displacement c c0) = map float64 xc"
    by (simp add: xc_def displacement_def case_prod_unfold)
  have el: "\<And>p. p \<in> set (zip c c0) \<Longrightarrow>
      \<bar>fst (fst p) - fst (snd p)\<bar> \<le> 512 \<and> \<bar>snd (fst p) - snd (snd p)\<bar> \<le> 512"
  proof -
    fix p assume "p \<in> set (zip c c0)"
    then have "fst p \<in> set c" "snd p \<in> set c0"
      by (auto dest: set_zip_leftD set_zip_rightD simp: prod_eq_iff [symmetric] intro: set_zip_leftD [of "fst p" "snd p"] set_zip_rightD [of "fst p" "snd p"])
    with bc bc0 have "0 \<le> fst (fst p) \<and> fst (fst p) \<le> 512 \<and> 0 \<le> snd (fst p) \<and> snd (fst p) \<le> 512"
      "0 \<le> fst (snd p) \<and> fst (snd p) \<le> 512 \<and> 0 \<le> snd (snd p) \<and> snd (snd p) \<le> 512"
      by blast+
    then show "\<bar>fst (fst p) - fst (snd p)\<bar> \<le> 512 \<and> \<bar>snd (fst p) - snd (snd p)\<bar> \<le> 512"
      by linarith
  qed
  have br: "\<forall>x \<in> set xr. \<bar>x\<bar> \<le> 512" and bcn: "\<forall>x \<in> set xc. \<bar>x\<bar> \<le> 512"
    using el by (auto simp: xr_def xc_def)
  have ner: "xr \<noteq> []" and nec: "xc \<noteq> []" using lr lcn K0 by auto
  have Kr: "length xr \<le> 262144" and Kc: "length xc \<le> 262144" using lr lcn KB by simp_all
  have sr: "sum_list xr = (\<Sum>k<K. fst (c ! k) - fst (c0 ! k))"
    unfolding xr_def sum_list_nth_sum l using lc lc0 by simp
  have sc: "sum_list xc = (\<Sum>k<K. snd (c ! k) - snd (c0 ! k))"
    unfolding xc_def sum_list_nth_sum l using lc lc0 by simp
  from float_mean_close [OF ner br Kr]
  show "\<bar>fst (mean_axis1 (map2 displacement c c0)) - (\<Sum>k<K. fst (c ! k) - fst (c0 ! k)) / of_nat K\<bar> \<le> 1 / 2 ^ 23"
    and "\<bar>(\<Sum>k<K. fst (c ! k) - fst (c0 ! k)) / of_nat K\<bar> \<le> 512"
    unfolding mean_axis1_def fst_conv fr sr lr by simp_all
  from float_mean_close [OF nec bcn Kc]
  show "\<bar>snd (mean_axis1 (map2 displacement c c0)) - (\<Sum>k<K. snd (c ! k) - snd (c0 ! k)) / of_nat K\<bar> \<le> 1 / 2 ^ 23"
    and "\<bar>(\<Sum>k<K. snd (c ! k) - snd (c0 ! k)) / of_nat K\<bar> \<le> 512"
    unfolding mean_axis1_def snd_conv fc sc lcn by simp_all
qed

lemma np_round_of_int: "np_round (of_int z) = z"
  by (simp add: np_round_def)

lemma two_powi_less_imp: "(2::rat) powi a < 2 powi b \<Longrightarrow> a < b"
proof (rule ccontr)
  assume l: "(2::rat) powi a < 2 powi b" and "\<not> a < b"
  then have "b \<le> a" by simp
  then have "(2::rat) powi b \<le> 2 powi a" by (intro power_int_increasing) simp_all
  with l show False by simp
qed

lemma float64_exact:
  assumes x: "x = of_int m * 2 powi k" and m: "\<bar>m\<bar> < 2 ^ 53"
  shows "float64 x = x"
proof (cases "x = 0")
  case True
  then show ?thesis by (simp add: float64_def)
next
  case False
  define e where "e = binade x"
  have "(2::rat) powi e \<le> \<bar>x\<bar>" unfolding e_def by (rule binade_lower [OF False])
  also have "\<bar>x\<bar> = of_int \<bar>m\<bar> * 2 powi k" by (simp add: x abs_mult)
  also have "\<dots> < 2 ^ 53 * 2 powi k"
  proof -
    have "(of_int \<bar>m\<bar> :: rat) < of_int (2 ^ 53)" using m by (simp only: of_int_less_iff)
    then have "(of_int \<bar>m\<bar> :: rat) < 2 ^ 53" by simp
    then show ?thesis by (intro mult_strict_right_mono) simp_all
  qed
  also have "\<dots> = 2 powi (53 + k)" by (simp add: power_int_add)
  finally have "e < 53 + k" by (rule two_powi_less_imp)
  then have j: "0 \<le> k - e + 52" by simp
  define j where "j = nat (k - e + 52)"
  have kj: "k = int j + (e - 52)" using j by (simp add: j_def)
  have xu: "x / 2 powi (e - 52) = of_int (m * 2 ^ j)"
    unfolding x kj by (simp add: power_int_add)
  have "float64 x = of_int (np_round (x / 2 powi (e - 52))) * 2 powi (e - 52)"
    using False by (simp add: float64_def e_def)
  also have "\<dots> = of_int (m * 2 ^ j) * 2 powi (e - 52)"
    unfolding xu np_round_of_int ..
  also have "\<dots> = x" unfolding x kj by (simp add: power_int_add)
  finally show ?thesis .
qed

lemma float64_of_int: "\<bar>m\<bar> < 2 ^ 53 \<Longrightarrow> float64 (of_int m) = of_int m"
  using float64_exact [of "of_int m" m 0] by simp

lemma float64_half: "\<bar>m\<bar> < 2 ^ 53 \<Longrightarrow> float64 (of_int m / 2) = of_int m / 2"
  using float64_exact [of "of_int m / 2" m "- 1"] by simp

lemma binade_upper:
  assumes "x \<noteq> 0"
  shows "\<bar>x\<bar> < 2 powi (binade x + 1)"
proof -
  define p where "p = fst (quotient_of \<bar>x\<bar>)"
  define q where "q = snd (quotient_of \<bar>x\<bar>)"
  define d where "d = bitlen p - bitlen q"
  have pq: "quotient_of \<bar>x\<bar> = (p, q)" by (simp add: p_def q_def)
  have q0: "0 < q" using quotient_of_denom_pos [OF pq] .
  have ax: "\<bar>x\<bar> = of_int p / of_int q" using quotient_of_div [OF pq] .
  have "0 < \<bar>x\<bar>" using assms by simp
  with ax q0 have p0: "0 < p" by (simp add: zero_less_divide_iff)
  have b: "binade x = (if 2 powi d \<le> \<bar>x\<bar> then d else d - 1)"
    by (simp add: binade_def Let_def d_def p_def q_def)
  show ?thesis
  proof (cases "2 powi d \<le> \<bar>x\<bar>")
    case False
    then show ?thesis by (simp add: b)
  next
    case True
    from bitlen_bounds [OF p0] have up: "p < 2 ^ nat (bitlen p)" by simp
    from bitlen_bounds [OF q0] have lq: "2 ^ nat (bitlen q - 1) \<le> q" by simp
    have bq: "1 \<le> bitlen q" using q0 bitlen_eq_zero_iff [of q] bitlen_nonneg [of q] by linarith
    have bp: "0 \<le> bitlen p" by (rule bitlen_nonneg)
    have up': "(of_int p :: rat) < 2 ^ nat (bitlen p)"
    proof -
      have "(of_int p :: rat) < of_int (2 ^ nat (bitlen p))" using up by (simp only: of_int_less_iff)
      then show ?thesis by simp
    qed
    have lq': "(2::rat) ^ nat (bitlen q - 1) \<le> of_int q"
    proof -
      have "(of_int (2 ^ nat (bitlen q - 1)) :: rat) \<le> of_int q" using lq by (simp only: of_int_le_iff)
      then show ?thesis by simp
    qed
    have "of_int p / of_int q < (2::rat) ^ nat (bitlen p) / 2 ^ nat (bitlen q - 1)"
      using up' lq' q0 p0 by (intro frac_less) simp_all
    also have "\<dots> = 2 powi (bitlen p) / 2 powi (bitlen q - 1)"
      using bp bq by (simp add: power_int_def)
    also have "\<dots> = 2 powi (bitlen p - (bitlen q - 1))"
      by (simp add: power_int_diff)
    also have "bitlen p - (bitlen q - 1) = d + 1" by (simp add: d_def)
    finally show ?thesis using True by (simp add: b ax)
  qed
qed

lemma binade_unique:
  assumes "2 powi e \<le> \<bar>x\<bar>" "\<bar>x\<bar> < 2 powi (e + 1)"
  shows "binade x = e"
proof -
  have "0 < (2::rat) powi e" by simp
  with assms(1) have "0 < \<bar>x\<bar>" by linarith
  then have x0: "x \<noteq> 0" by simp
  have "(2::rat) powi e < 2 powi (binade x + 1)"
    using assms(1) binade_upper [OF x0] by linarith
  then have 1: "e < binade x + 1" by (rule two_powi_less_imp)
  have "(2::rat) powi binade x < 2 powi (e + 1)"
    using assms(2) binade_lower [OF x0] by linarith
  then have "binade x < e + 1" by (rule two_powi_less_imp)
  with 1 show ?thesis by simp
qed

lemma float64_eq:
  assumes "2 powi e \<le> \<bar>x\<bar>" "\<bar>x\<bar> < 2 powi (e + 1)"
  shows "float64 x = of_int (np_round (x / 2 powi (e - 52))) * 2 powi (e - 52)"
proof -
  have "0 < (2::rat) powi e" by simp
  with assms(1) have "0 < \<bar>x\<bar>" by linarith
  then have x0: "x \<noteq> 0" by simp
  show ?thesis using x0 by (simp add: float64_def binade_unique [OF assms])
qed

lemma t1: "np_round (18014398509481984 / 3) = 6004799503160661"
  by code_simp

lemma t2: "float64 (1 / 3) = 6004799503160661 / 18014398509481984"
  using float64_eq [of "- 2" "1 / 3"] by (simp add: t1 power_int_minus)

subsection \<open>The shift of a frame\<close>

lemma shifts_well_formed:
  assumes "cs \<noteq> []" "0 < K" "\<forall>c \<in> set cs. length c = K"
  shows "shifts cs = Inr (map (\<lambda>c. mean_axis1 (map2 displacement c (cs ! 0))) cs)"
proof -
  from assms(1) obtain c0 rest where cs: "cs = c0 # rest" by (cases cs) auto
  with assms(3) have k0: "length c0 = K" by simp
  with assms(2) have "c0 \<noteq> []" by auto
  moreover have "\<not> list_ex (\<lambda>c. length c \<noteq> length c0) cs"
    using assms(3) k0 by (simp add: list_ex_iff)
  ultimately show ?thesis using cs unfolding shifts_def by (simp only: list.case if_False nth_Cons_0)
qed

lemma round_int16_small:
  assumes "- 513 \<le> x" "x \<le> 513"
  shows "int16 (np_round x) = np_round x"
proof -
  have "- 513 \<le> np_round x \<and> np_round x \<le> 513"
    using np_round_range [of "- 513" x 513] assms by simp
  then show ?thesis by (simp add: int16_id)
qed

text \<open>
  Claim C3. When every frame has the same number K > 0 of accepted-region centroids (at
  most as many as the crop has cells), all inside the (512, 512) crop, the script computes
  exactly one integer pair for each frame: each coordinate is the mean over the K
  positions of the displacement between the frame's centroid and frame 0's centroid at
  the same position, as numpy computes it in doubles, rounded to a nearest integer (the
  16-bit cast changes nothing in this range). The computed mean is within \<open>1 / 2 ^ 23\<close>
  of the exact mean of the exact displacements. The shifted boxes of line 363 have, for
  every reference box and every frame f, the box translated by the one pair of frame f
  (the translation is that of \<open>shift_bounding_boxes\<close>).
\<close>

theorem shift_vector_per_frame:
  assumes frames: "cs \<noteq> []"
    and regions: "0 < K" "K \<le> 512 * 512"
    and same: "\<forall>c \<in> set cs. length c = K"
    and crop: "\<forall>c \<in> set cs. \<forall>p \<in> set c. 0 \<le> fst p \<and> fst p \<le> 512 \<and> 0 \<le> snd p \<and> snd p \<le> 512"
  shows "\<exists>v d. integer_shifts cs = Inr v \<and> bbox_shift_dict bboxes cs n = Inr d
           \<and> length v = length cs \<and> map fst d = map fst bboxes
           \<and> (\<forall>f < length cs.
                v ! f = (np_round (fst (mean_axis1 (map2 displacement (cs ! f) (cs ! 0)))),
                         np_round (snd (mean_axis1 (map2 displacement (cs ! f) (cs ! 0)))))
              \<and> \<bar>fst (mean_axis1 (map2 displacement (cs ! f) (cs ! 0)))
                  - (\<Sum>k<K. fst (cs ! f ! k) - fst (cs ! 0 ! k)) / of_nat K\<bar> \<le> 1 / 2 ^ 23
              \<and> \<bar>snd (mean_axis1 (map2 displacement (cs ! f) (cs ! 0)))
                  - (\<Sum>k<K. snd (cs ! f ! k) - snd (cs ! 0 ! k)) / of_nat K\<bar> \<le> 1 / 2 ^ 23
              \<and> \<bar>of_int (fst (v ! f)) - fst (mean_axis1 (map2 displacement (cs ! f) (cs ! 0)))\<bar> \<le> 1 / 2
              \<and> \<bar>of_int (snd (v ! f)) - snd (mean_axis1 (map2 displacement (cs ! f) (cs ! 0)))\<bar> \<le> 1 / 2
              \<and> (\<forall>i < length bboxes.
                    length (snd (d ! i)) = length cs
                    \<and> snd (d ! i) ! f =
                        (if inside_frame (translate (snd (bboxes ! i)) (v ! f)) n
                         then Box (translate (snd (bboxes ! i)) (v ! f)) else OutOfBounds)))"
proof -
  define s where "s = map (\<lambda>c. mean_axis1 (map2 displacement c (cs ! 0))) cs"
  define v where "v = map (\<lambda>d. (int16 (np_round (fst d)), int16 (np_round (snd d)))) s"
  define d where "d = shift_bounding_boxes bboxes v n"
  have sh: "shifts cs = Inr s"
    unfolding s_def by (rule shifts_well_formed [OF frames regions(1) same])
  then have iv: "integer_shifts cs = Inr v"
    by (simp add: integer_shifts_def v_def)
  then have bd: "bbox_shift_dict bboxes cs n = Inr d"
    by (simp add: bbox_shift_dict_def d_def)
  have len: "length v = length cs" by (simp add: v_def s_def)
  have keys: "map fst d = map fst bboxes"
    by (simp add: d_def shift_bounding_boxes_def case_prod_unfold comp_def)
  have c0: "cs ! 0 \<in> set cs" using frames by simp
  have KB: "K \<le> 262144" using regions(2) by simp
  have frame: "v ! f = (np_round (fst (mean_axis1 (map2 displacement (cs ! f) (cs ! 0)))),
                         np_round (snd (mean_axis1 (map2 displacement (cs ! f) (cs ! 0)))))
      \<and> \<bar>fst (mean_axis1 (map2 displacement (cs ! f) (cs ! 0)))
          - (\<Sum>k<K. fst (cs ! f ! k) - fst (cs ! 0 ! k)) / of_nat K\<bar> \<le> 1 / 2 ^ 23
      \<and> \<bar>snd (mean_axis1 (map2 displacement (cs ! f) (cs ! 0)))
          - (\<Sum>k<K. snd (cs ! f ! k) - snd (cs ! 0 ! k)) / of_nat K\<bar> \<le> 1 / 2 ^ 23"
    if f: "f < length cs" for f
  proof -
    define m where "m = mean_axis1 (map2 displacement (cs ! f) (cs ! 0))"
    have cf: "cs ! f \<in> set cs" using f by simp
    have lf: "length (cs ! f) = K" and l0: "length (cs ! 0) = K" using same cf c0 by auto
    have bf: "\<forall>p \<in> set (cs ! f). 0 \<le> fst p \<and> fst p \<le> 512 \<and> 0 \<le> snd p \<and> snd p \<le> 512"
      using crop cf by blast
    have b0: "\<forall>p \<in> set (cs ! 0). 0 \<le> fst p \<and> fst p \<le> 512 \<and> 0 \<le> snd p \<and> snd p \<le> 512"
      using crop c0 by blast
    note cl = mean_axis1_displacement [OF lf l0 regions(1) KB bf b0, folded m_def]
    have "1 / 2 ^ 23 \<le> (1::rat)" by simp
    with cl have "- 513 \<le> fst m \<and> fst m \<le> 513" "- 513 \<le> snd m \<and> snd m \<le> 513"
      by linarith+
    then have i: "int16 (np_round (fst m)) = np_round (fst m)" "int16 (np_round (snd m)) = np_round (snd m)"
      by (simp_all add: round_int16_small)
    have "s ! f = m" using f by (simp add: s_def m_def)
    then have "v ! f = (np_round (fst m), np_round (snd m))"
      using f i by (simp add: v_def s_def)
    with cl(1,2) show ?thesis unfolding m_def by simp
  qed
  have boxes: "length (snd (d ! i)) = length cs
      \<and> snd (d ! i) ! f =
          (if inside_frame (translate (snd (bboxes ! i)) (v ! f)) n
           then Box (translate (snd (bboxes ! i)) (v ! f)) else OutOfBounds)"
    if "f < length cs" "i < length bboxes" for f i
    using that len by (simp add: d_def shift_bounding_boxes_def case_prod_unfold)
  have "\<forall>f < length cs.
                v ! f = (np_round (fst (mean_axis1 (map2 displacement (cs ! f) (cs ! 0)))),
                         np_round (snd (mean_axis1 (map2 displacement (cs ! f) (cs ! 0)))))
              \<and> \<bar>fst (mean_axis1 (map2 displacement (cs ! f) (cs ! 0)))
                  - (\<Sum>k<K. fst (cs ! f ! k) - fst (cs ! 0 ! k)) / of_nat K\<bar> \<le> 1 / 2 ^ 23
              \<and> \<bar>snd (mean_axis1 (map2 displacement (cs ! f) (cs ! 0)))
                  - (\<Sum>k<K. snd (cs ! f ! k) - snd (cs ! 0 ! k)) / of_nat K\<bar> \<le> 1 / 2 ^ 23
              \<and> \<bar>of_int (fst (v ! f)) - fst (mean_axis1 (map2 displacement (cs ! f) (cs ! 0)))\<bar> \<le> 1 / 2
              \<and> \<bar>of_int (snd (v ! f)) - snd (mean_axis1 (map2 displacement (cs ! f) (cs ! 0)))\<bar> \<le> 1 / 2
              \<and> (\<forall>i < length bboxes.
                    length (snd (d ! i)) = length cs
                    \<and> snd (d ! i) ! f =
                        (if inside_frame (translate (snd (bboxes ! i)) (v ! f)) n
                         then Box (translate (snd (bboxes ! i)) (v ! f)) else OutOfBounds))"
  proof (intro allI impI)
    fix f assume f: "f < length cs"
    note fr = frame [OF f]
    have vf: "fst (v ! f) = np_round (fst (mean_axis1 (map2 displacement (cs ! f) (cs ! 0))))"
      "snd (v ! f) = np_round (snd (mean_axis1 (map2 displacement (cs ! f) (cs ! 0))))"
      using fr by simp_all
    have n1: "\<bar>of_int (fst (v ! f)) - fst (mean_axis1 (map2 displacement (cs ! f) (cs ! 0)))\<bar> \<le> 1 / 2"
      unfolding vf by (rule np_round_nearest)
    have n2: "\<bar>of_int (snd (v ! f)) - snd (mean_axis1 (map2 displacement (cs ! f) (cs ! 0)))\<bar> \<le> 1 / 2"
      unfolding vf by (rule np_round_nearest)
    from fr n1 n2 boxes [OF f]
    show "v ! f = (np_round (fst (mean_axis1 (map2 displacement (cs ! f) (cs ! 0)))),
                         np_round (snd (mean_axis1 (map2 displacement (cs ! f) (cs ! 0)))))
              \<and> \<bar>fst (mean_axis1 (map2 displacement (cs ! f) (cs ! 0)))
                  - (\<Sum>k<K. fst (cs ! f ! k) - fst (cs ! 0 ! k)) / of_nat K\<bar> \<le> 1 / 2 ^ 23
              \<and> \<bar>snd (mean_axis1 (map2 displacement (cs ! f) (cs ! 0)))
                  - (\<Sum>k<K. snd (cs ! f ! k) - snd (cs ! 0 ! k)) / of_nat K\<bar> \<le> 1 / 2 ^ 23
              \<and> \<bar>of_int (fst (v ! f)) - fst (mean_axis1 (map2 displacement (cs ! f) (cs ! 0)))\<bar> \<le> 1 / 2
              \<and> \<bar>of_int (snd (v ! f)) - snd (mean_axis1 (map2 displacement (cs ! f) (cs ! 0)))\<bar> \<le> 1 / 2
              \<and> (\<forall>i < length bboxes.
                    length (snd (d ! i)) = length cs
                    \<and> snd (d ! i) ! f =
                        (if inside_frame (translate (snd (bboxes ! i)) (v ! f)) n
                         then Box (translate (snd (bboxes ! i)) (v ! f)) else OutOfBounds))"
      by blast
  qed
  with iv bd len keys show ?thesis by blast
qed

lemma float64_0: "float64 0 = 0"
  by (simp add: float64_def)

lemma float64_numeral: "(numeral n :: int) < 2 ^ 53 \<Longrightarrow> float64 (numeral n) = numeral n"
  using float64_of_int [of "numeral n"] by simp

lemma float64_1: "float64 1 = 1"
  using float64_of_int [of 1] by simp

lemma float64_neg_numeral: "(numeral n :: int) < 2 ^ 53 \<Longrightarrow> float64 (- numeral n) = - numeral n"
  using float64_of_int [of "- numeral n"] by simp

lemma float64_numeral_half: "(numeral n :: int) < 2 ^ 53 \<Longrightarrow> float64 (numeral n / 2) = numeral n / 2"
  using float64_half [of "numeral n"] by simp

lemma float64_one_half: "float64 (1 / 2) = 1 / 2"
  using float64_half [of 1] by simp

lemmas float64_small =
  float64_0 float64_1 float64_numeral float64_neg_numeral float64_numeral_half float64_one_half

lemma np_round_0: "np_round 0 = 0" and np_round_1: "np_round 1 = 1"
  by (simp_all add: np_round_def)

lemma stack0_centroids:
  "align_centroids
     [[[1, 1, 0, 0, 0, 0, 0, 0], [0, 0, 0, 2, 2, 0, 0, 0], [0, 0, 0, 0, 0, 0, 0, 0]],
      [[0, 0, 0, 0, 0, 0, 0, 0], [0, 1, 1, 0, 0, 0, 0, 0], [0, 0, 0, 0, 2, 2, 0, 0]],
      [[1, 1, 0, 0, 0, 0, 0, 3], [0, 0, 0, 2, 2, 0, 0, 0], [0, 0, 0, 0, 0, 0, 0, 0]]]
   = [[(0, 1 / 2), (1, 7 / 2)], [(1, 3 / 2), (2, 9 / 2)], [(0, 1 / 2), (1, 7 / 2)]]"
proof -
  have r: "remove_bad_labels
     [[[1, 1, 0, 0, 0, 0, 0, 0], [0, 0, 0, 2, 2, 0, 0, 0], [0, 0, 0, 0, 0, 0, 0, 0]],
      [[0, 0, 0, 0, 0, 0, 0, 0], [0, 1, 1, 0, 0, 0, 0, 0], [0, 0, 0, 0, 2, 2, 0, 0]],
      [[1, 1, 0, 0, 0, 0, 0, 3], [0, 0, 0, 2, 2, 0, 0, 0], [0, 0, 0, 0, 0, 0, 0, 0]]]
    = [[[1, 1, 0, 0, 0, 0, 0, 0], [0, 0, 0, 2, 2, 0, 0, 0], [0, 0, 0, 0, 0, 0, 0, 0]],
      [[0, 0, 0, 0, 0, 0, 0, 0], [0, 1, 1, 0, 0, 0, 0, 0], [0, 0, 0, 0, 2, 2, 0, 0]],
      [[1, 1, 0, 0, 0, 0, 0, 0], [0, 0, 0, 2, 2, 0, 0, 0], [0, 0, 0, 0, 0, 0, 0, 0]]]"
    by code_simp
  have p: "map (\<lambda>img. map (\<lambda>l. label_pixels l img) (image_labels img))
     [[[1, 1, 0, 0, 0, 0, 0, 0], [0, 0, 0, 2, 2, 0, 0, 0], [0, 0, 0, 0, 0, 0, 0, 0]],
      [[0, 0, 0, 0, 0, 0, 0, 0], [0, 1, 1, 0, 0, 0, 0, 0], [0, 0, 0, 0, 2, 2, 0, 0]],
      [[1, 1, 0, 0, 0, 0, 0, 0], [0, 0, 0, 2, 2, 0, 0, 0], [0, 0, 0, 0, 0, 0, 0, 0]]]
    = [[[(0, 0), (0, 1)], [(1, 3), (1, 4)]], [[(1, 1), (1, 2)], [(2, 4), (2, 5)]],
       [[(0, 0), (0, 1)], [(1, 3), (1, 4)]]]"
    by code_simp
  have "align_centroids
     [[[1, 1, 0, 0, 0, 0, 0, 0], [0, 0, 0, 2, 2, 0, 0, 0], [0, 0, 0, 0, 0, 0, 0, 0]],
      [[0, 0, 0, 0, 0, 0, 0, 0], [0, 1, 1, 0, 0, 0, 0, 0], [0, 0, 0, 0, 2, 2, 0, 0]],
      [[1, 1, 0, 0, 0, 0, 0, 3], [0, 0, 0, 2, 2, 0, 0, 0], [0, 0, 0, 0, 0, 0, 0, 0]]]
    = map (map region_centroid) (map (\<lambda>img. map (\<lambda>l. label_pixels l img) (image_labels img))
     [[[1, 1, 0, 0, 0, 0, 0, 0], [0, 0, 0, 2, 2, 0, 0, 0], [0, 0, 0, 0, 0, 0, 0, 0]],
      [[0, 0, 0, 0, 0, 0, 0, 0], [0, 1, 1, 0, 0, 0, 0, 0], [0, 0, 0, 0, 2, 2, 0, 0]],
      [[1, 1, 0, 0, 0, 0, 0, 0], [0, 0, 0, 2, 2, 0, 0, 0], [0, 0, 0, 0, 0, 0, 0, 0]]])"
    unfolding align_centroids_def r by (simp add: frame_centroids_def comp_def)
  also have "\<dots> = [[(0, 1 / 2), (1, 7 / 2)], [(1, 3 / 2), (2, 9 / 2)], [(0, 1 / 2), (1, 7 / 2)]]"
    unfolding p by (simp add: region_centroid_def np_mean_def float64_small)
  finally show ?thesis .
qed

lemma float64_third: "float64 (1 / 3) = 6004799503160661 / 18014398509481984"
proof -
  have r: "np_round (18014398509481984 / 3) = 6004799503160661" by code_simp
  show ?thesis using float64_eq [of "- 2" "1 / 3"] by (simp add: r power_int_minus)
qed

lemma float64_two_thirds: "float64 (2 / 3) = 6004799503160661 / 9007199254740992"
proof -
  have r: "np_round (18014398509481984 / 3) = 6004799503160661" by code_simp
  show ?thesis using float64_eq [of "- 1" "2 / 3"] by (simp add: r power_int_minus)
qed

lemma float64_seven_sixths: "float64 (7 / 6) = 5254199565265579 / 4503599627370496"
proof -
  have r: "np_round (15762598695796736 / 3) = 5254199565265579" by code_simp
  show ?thesis using float64_eq [of 0 "7 / 6"] by (simp add: r power_int_minus)
qed

lemma float64_row_difference:
  "float64 (6004799503160661 / 18014398509481984) = 6004799503160661 / 18014398509481984"
  using float64_exact [of "6004799503160661 / 18014398509481984" 6004799503160661 "- 54"]
  by (simp add: power_int_minus)

lemma float64_column_difference:
  "float64 (4503599627370497 / 9007199254740992) = 4503599627370497 / 9007199254740992"
  using float64_exact [of "4503599627370497 / 9007199254740992" 4503599627370497 "- 53"]
  by (simp add: power_int_minus)

text \<open>
  A tie that is none in doubles: one region with the cells (0,0), (0,1), (1,1) in frame 0
  and (0,0), (0,1), (0,2), (1,1), (1,2), (2,1) in frame 1. The exact column means are 2/3
  and 7/6, half a pixel apart; the doubles are \<open>1 / 2 + 1 / 2 ^ 53\<close> apart, and the
  column shift is 1.
\<close>

lemma float_tie_example:
  "align_centroids [[[1, 1, 0], [0, 1, 0], [0, 0, 0]], [[1, 1, 1], [0, 1, 1], [0, 1, 0]]]
     = [[(6004799503160661 / 18014398509481984, 6004799503160661 / 9007199254740992)],
        [(6004799503160661 / 9007199254740992, 5254199565265579 / 4503599627370496)]]"
  "integer_shifts
     [[(6004799503160661 / 18014398509481984, 6004799503160661 / 9007199254740992)],
      [(6004799503160661 / 9007199254740992, 5254199565265579 / 4503599627370496)]]
     = Inr [(0, 0), (0, 1)]"
proof -
  have r: "remove_bad_labels [[[1, 1, 0], [0, 1, 0], [0, 0, 0]], [[1, 1, 1], [0, 1, 1], [0, 1, 0]]]
     = [[[1, 1, 0], [0, 1, 0], [0, 0, 0]], [[1, 1, 1], [0, 1, 1], [0, 1, 0]]]"
    by code_simp
  have p: "map (\<lambda>img. map (\<lambda>l. label_pixels l img) (image_labels img))
       [[[1, 1, 0], [0, 1, 0], [0, 0, 0]], [[1, 1, 1], [0, 1, 1], [0, 1, 0]]]
     = [[[(0, 0), (0, 1), (1, 1)]], [[(0, 0), (0, 1), (0, 2), (1, 1), (1, 2), (2, 1)]]]"
    by code_simp
  have "align_centroids [[[1, 1, 0], [0, 1, 0], [0, 0, 0]], [[1, 1, 1], [0, 1, 1], [0, 1, 0]]]
     = map (map region_centroid) (map (\<lambda>img. map (\<lambda>l. label_pixels l img) (image_labels img))
          [[[1, 1, 0], [0, 1, 0], [0, 0, 0]], [[1, 1, 1], [0, 1, 1], [0, 1, 0]]])"
    unfolding align_centroids_def r by (simp add: frame_centroids_def comp_def)
  also have "\<dots> = [[(6004799503160661 / 18014398509481984, 6004799503160661 / 9007199254740992)],
        [(6004799503160661 / 9007199254740992, 5254199565265579 / 4503599627370496)]]"
    unfolding p
    by (simp add: region_centroid_def np_mean_def float64_small float64_third float64_two_thirds
        float64_seven_sixths)
  finally show "align_centroids [[[1, 1, 0], [0, 1, 0], [0, 0, 0]], [[1, 1, 1], [0, 1, 1], [0, 1, 0]]]
     = [[(6004799503160661 / 18014398509481984, 6004799503160661 / 9007199254740992)],
        [(6004799503160661 / 9007199254740992, 5254199565265579 / 4503599627370496)]]" .
  have n0: "np_round (6004799503160661 / 18014398509481984) = 0" by code_simp
  have n1: "np_round (4503599627370497 / 9007199254740992) = 1" by code_simp
  show "integer_shifts
     [[(6004799503160661 / 18014398509481984, 6004799503160661 / 9007199254740992)],
      [(6004799503160661 / 9007199254740992, 5254199565265579 / 4503599627370496)]]
     = Inr [(0, 0), (0, 1)]"
    by (simp add: integer_shifts_def shifts_def mean_axis1_def displacement_def np_mean_def
        float64_small float64_row_difference float64_column_difference n0 n1 np_round_0 int16_def)
qed

theorem shift_vector_per_frame_witness:
  "align_centroids
     [[[1, 1, 0, 0, 0, 0, 0, 0], [0, 0, 0, 2, 2, 0, 0, 0], [0, 0, 0, 0, 0, 0, 0, 0]],
      [[0, 0, 0, 0, 0, 0, 0, 0], [0, 1, 1, 0, 0, 0, 0, 0], [0, 0, 0, 0, 2, 2, 0, 0]],
      [[1, 1, 0, 0, 0, 0, 0, 3], [0, 0, 0, 2, 2, 0, 0, 0], [0, 0, 0, 0, 0, 0, 0, 0]]]
     = [[(0, 1 / 2), (1, 7 / 2)], [(1, 3 / 2), (2, 9 / 2)], [(0, 1 / 2), (1, 7 / 2)]]
   \<and> integer_shifts [[(0, 1 / 2), (1, 7 / 2)], [(1, 3 / 2), (2, 9 / 2)], [(0, 1 / 2), (1, 7 / 2)]]
     = Inr [(0, 0), (1, 1), (0, 0)]
   \<and> bbox_shift_dict [(1, (0, 0, 1, 2)), (2, (1, 3, 2, 5))]
        [[(0, 1 / 2), (1, 7 / 2)], [(1, 3 / 2), (2, 9 / 2)], [(0, 1 / 2), (1, 7 / 2)]] 8
     = Inr [(1, [Box (0, 0, 1, 2), Box (1, 1, 2, 3), Box (0, 0, 1, 2)]),
            (2, [Box (1, 3, 2, 5), Box (2, 4, 3, 6), Box (1, 3, 2, 5)])]
   \<and> integer_shifts
        (align_centroids [[[1, 1, 0], [0, 1, 0], [0, 0, 0]], [[1, 1, 1], [0, 1, 1], [0, 1, 0]]])
     = Inr [(0, 0), (0, 1)]"
proof -
  define cs :: "centroid list list"
    where "cs = [[(0, 1 / 2), (1, 7 / 2)], [(1, 3 / 2), (2, 9 / 2)], [(0, 1 / 2), (1, 7 / 2)]]"
  define bb :: "(nat \<times> bbox) list" where "bb = [(1, (0, 0, 1, 2)), (2, (1, 3, 2, 5))]"
  have h1: "cs \<noteq> []" and h2: "0 < (2::nat)" and h2': "(2::nat) \<le> 512 * 512"
    and h3: "\<forall>c \<in> set cs. length c = 2"
    and h4: "\<forall>c \<in> set cs. \<forall>p \<in> set c. 0 \<le> fst p \<and> fst p \<le> 512 \<and> 0 \<le> snd p \<and> snd p \<le> 512"
    by (simp_all add: cs_def)
  from shift_vector_per_frame [OF h1 h2 h2' h3 h4, of bb 8]
  obtain v d where v: "integer_shifts cs = Inr v" and d: "bbox_shift_dict bb cs 8 = Inr d"
    by blast
  have iv: "integer_shifts cs = Inr [(0, 0), (1, 1), (0, 0)]"
    by (simp add: cs_def integer_shifts_def shifts_def mean_axis1_def displacement_def np_mean_def
        float64_small np_round_0 np_round_1 int16_def)
  with v have ve: "v = [(0, 0), (1, 1), (0, 0)]" by simp
  from d have "d = shift_bounding_boxes bb v 8"
    using v by (simp add: bbox_shift_dict_def)
  then have de: "d = [(1, [Box (0, 0, 1, 2), Box (1, 1, 2, 3), Box (0, 0, 1, 2)]),
            (2, [Box (1, 3, 2, 5), Box (2, 4, 3, 6), Box (1, 3, 2, 5)])]"
    unfolding ve by (simp add: bb_def shift_bounding_boxes_def translate_def inside_frame_def)
  from v ve d de stack0_centroids float_tie_example show ?thesis
    unfolding cs_def bb_def by (simp only:) 
qed

subsection \<open>Frames with different numbers of regions\<close>

text \<open>
  Claim C4, as stated, asks for an error of the one frame whose count differs, the other
  frames going on to slicing. Here frame 1 has one centroid and frames 0 and 2 have two:
  the script stops with IndexError and no frame gets a shift or a shifted box.
\<close>

theorem region_count_mismatch_counterexample:
  "integer_shifts [[(0, 1 / 2), (1, 7 / 2)], [(1, 3 / 2)], [(0, 1 / 2), (1, 7 / 2)]] = Inl IndexError
   \<and> bbox_shift_dict [(1, (0, 0, 1, 2)), (2, (1, 3, 2, 5))]
        [[(0, 1 / 2), (1, 7 / 2)], [(1, 3 / 2)], [(0, 1 / 2), (1, 7 / 2)]] 8 = Inl IndexError"
  by (simp add: bbox_shift_dict_def integer_shifts_def shifts_def)

lemma if_either: "(if a then x else if b then x else y) = (if a \<or> b then x else y)"
  by simp

lemma shifts_Cons:
  "shifts (c0 # rest) =
     (if (\<exists>c \<in> set (c0 # rest). length c \<noteq> length c0) \<or> c0 = [] then Inl IndexError
      else Inr (map (\<lambda>c. mean_axis1 (map2 displacement c c0)) (c0 # rest)))"
proof -
  have "shifts (c0 # rest) =
     (if list_ex (\<lambda>c. length c \<noteq> length c0) (c0 # rest) then Inl IndexError
      else if c0 = [] then Inl IndexError
      else Inr (map (\<lambda>c. mean_axis1 (map2 displacement c c0)) (c0 # rest)))"
    by (simp only: shifts_def list.case)
  also have "\<dots> =
     (if list_ex (\<lambda>c. length c \<noteq> length c0) (c0 # rest) \<or> c0 = [] then Inl IndexError
      else Inr (map (\<lambda>c. mean_axis1 (map2 displacement c c0)) (c0 # rest)))"
    by (rule if_either)
  finally show ?thesis unfolding list_ex_iff .
qed

lemma shifts_Inr_lengths:
  assumes "shifts cs = Inr s"
  shows "(\<forall>c \<in> set cs. length c = length (hd cs)) \<and> length s = length cs"
proof (cases cs)
  case Nil
  with assms show ?thesis by (simp add: shifts_def)
next
  case (Cons c0 rest)
  show ?thesis
  proof (cases "(\<exists>c \<in> set (c0 # rest). length c \<noteq> length c0) \<or> c0 = []")
    case True
    then have "shifts cs = Inl IndexError" unfolding Cons shifts_Cons by (rule if_P)
    with assms show ?thesis by simp
  next
    case False
    then have "shifts cs = Inr (map (\<lambda>c. mean_axis1 (map2 displacement c c0)) (c0 # rest))"
      unfolding Cons shifts_Cons by (rule if_not_P)
    with assms have "length s = length cs" unfolding Cons by auto
    moreover from False have "\<forall>c \<in> set cs. length c = length (hd cs)"
      unfolding Cons by simp
    ultimately show ?thesis by simp
  qed
qed

lemma shifts_mismatch:
  assumes "c \<in> set cs" "length c \<noteq> length (hd cs)"
  shows "shifts cs = Inl IndexError"
proof (cases cs)
  case Nil
  then show ?thesis by (simp add: shifts_def)
next
  case (Cons c0 rest)
  with assms have "(\<exists>c \<in> set (c0 # rest). length c \<noteq> length c0) \<or> c0 = []"
    by auto
  then show ?thesis unfolding Cons shifts_Cons by (rule if_P)
qed

text \<open>
  Claim C4, amended. A frame whose number of centroids differs from frame 0's makes the
  shift computation raise IndexError, which nothing handles: the run stops and no frame
  is shifted. Whenever shifts are returned, every frame had as many centroids as frame 0,
  so centroids of mismatched frames are never averaged.
\<close>

theorem region_count_mismatch_aborts:
  "((\<exists>c \<in> set cs. length c \<noteq> length (hd cs)) \<longrightarrow>
       integer_shifts cs = Inl IndexError \<and> bbox_shift_dict bboxes cs n = Inl IndexError)
   \<and> (integer_shifts cs = Inr v \<longrightarrow>
       (\<forall>c \<in> set cs. length c = length (hd cs)) \<and> length v = length cs)"
proof (intro conjI impI)
  assume "\<exists>c \<in> set cs. length c \<noteq> length (hd cs)"
  then have "shifts cs = Inl IndexError" using shifts_mismatch by blast
  then show "integer_shifts cs = Inl IndexError" "bbox_shift_dict bboxes cs n = Inl IndexError"
    by (simp_all add: integer_shifts_def bbox_shift_dict_def)
next
  assume a: "integer_shifts cs = Inr v"
  then obtain s where s: "shifts cs = Inr s" and v: "length v = length s"
    by (auto simp: integer_shifts_def split: sum.splits)
  from shifts_Inr_lengths [OF s] v
  show "\<forall>c \<in> set cs. length c = length (hd cs)" "length v = length cs" by simp_all
qed

theorem region_count_mismatch_aborts_witness:
  "integer_shifts [[(10, 10), (20, 20), (30, 30)], [(10, 11), (20, 21), (30, 31)], [(10, 12), (30, 32)]]
     = Inl IndexError
   \<and> bbox_shift_dict [(1, (5, 5, 15, 15))]
        [[(10, 10), (20, 20), (30, 30)], [(10, 11), (20, 21), (30, 31)], [(10, 12), (30, 32)]] 2048
     = Inl IndexError
   \<and> integer_shifts [[(10, 10), (20, 20)], [(10, 11), (20, 21)]] = Inr [(0, 0), (0, 1)]
   \<and> length [(0::int, 0::int), (0, 1)] = length [[(10::rat, 10::rat), (20, 20)], [(10, 11), (20, 21)]]"
proof -
  have i: "integer_shifts [[(10, 10), (20, 20)], [(10, 11), (20, 21)]] = Inr [(0, 0), (0, 1)]"
    by (simp add: integer_shifts_def shifts_def mean_axis1_def displacement_def np_mean_def
        float64_small np_round_0 np_round_1 int16_def)
  show ?thesis
    using region_count_mismatch_aborts
        [of "[[(10, 10), (20, 20), (30, 30)], [(10, 11), (20, 21), (30, 31)], [(10, 12), (30, 32)]]"
            "[(1, (5, 5, 15, 15))]" 2048 "[]"]
      region_count_mismatch_aborts
        [of "[[(10, 10), (20, 20)], [(10, 11), (20, 21)]]" "[]" 0 "[(0, 0), (0, 1)]"] i
    by simp
qed

subsection \<open>Boxes that leave the frame\<close>

lemma shift_bounding_boxes_nth:
  assumes "i < length bboxes" "f < length v"
  shows "snd (shift_bounding_boxes bboxes v n ! i) ! f =
           (if inside_frame (translate (snd (bboxes ! i)) (v ! f)) n
            then Box (translate (snd (bboxes ! i)) (v ! f)) else OutOfBounds)"
  using assms by (simp add: shift_bounding_boxes_def case_prod_unfold)

text \<open>
  Claim C7, on \<open>shift_bounding_boxes\<close> as modelled from the spec. The entry of box i
  in frame f is the out-of-bounds flag exactly when the translated box leaves
  [0, frame dimension) in a row or a column; otherwise it is the translated box itself,
  with no coordinate clipped or wrapped. A box (0, 0, h, w) shifted by (-1, 0) is flagged.
\<close>

theorem out_of_frame_box_is_flagged:
  assumes "i < length bboxes" "f < length shift_list"
    and "snd (bboxes ! i) = (r0, c0, r1, c1)" "shift_list ! f = (dr, dc)"
  shows "snd (shift_bounding_boxes bboxes shift_list n ! i) ! f =
           (if r0 + dr < 0 \<or> c0 + dc < 0 \<or> n < r1 + dr \<or> n < c1 + dc
            then OutOfBounds else Box (r0 + dr, c0 + dc, r1 + dr, c1 + dc))
         \<and> shift_bounding_boxes [(l, (0, 0, h, w))] [(- 1, 0)] n = [(l, [OutOfBounds])]"
proof
  have t: "translate (snd (bboxes ! i)) (shift_list ! f) = (r0 + dr, c0 + dc, r1 + dr, c1 + dc)"
    using assms(3,4) by (simp add: translate_def)
  have "inside_frame (r0 + dr, c0 + dc, r1 + dr, c1 + dc) n \<longleftrightarrow>
          \<not> (r0 + dr < 0 \<or> c0 + dc < 0 \<or> n < r1 + dr \<or> n < c1 + dc)"
    by (auto simp: inside_frame_def)
  then show "snd (shift_bounding_boxes bboxes shift_list n ! i) ! f =
           (if r0 + dr < 0 \<or> c0 + dc < 0 \<or> n < r1 + dr \<or> n < c1 + dc
            then OutOfBounds else Box (r0 + dr, c0 + dc, r1 + dr, c1 + dc))"
    unfolding shift_bounding_boxes_nth [OF assms(1,2)] t by simp
  show "shift_bounding_boxes [(l, (0, 0, h, w))] [(- 1, 0)] n = [(l, [OutOfBounds])]"
    by (simp add: shift_bounding_boxes_def translate_def inside_frame_def)
qed

theorem out_of_frame_box_is_flagged_witness:
  "snd (shift_bounding_boxes [(7, (0, 0, 40, 10))] [(0, 0), (- 1, 0), (3, 2)] 2048 ! 0) ! 1 = OutOfBounds
   \<and> snd (shift_bounding_boxes [(7, (0, 0, 40, 10))] [(0, 0), (- 1, 0), (3, 2)] 2048 ! 0) ! 2 = Box (3, 2, 43, 12)
   \<and> shift_bounding_boxes [(7, (0, 0, 40, 10))] [(- 1, 0)] 2048 = [(7, [OutOfBounds])]"
  using out_of_frame_box_is_flagged [of 0 "[(7, (0, 0, 40, 10))]" 1 "[(0, 0), (- 1, 0), (3, 2)]" 0 0 40 10 "- 1" 0 2048 7 40 10]
    out_of_frame_box_is_flagged [of 0 "[(7, (0, 0, 40, 10))]" 2 "[(0, 0), (- 1, 0), (3, 2)]" 0 0 40 10 3 2 2048 7 40 10]
  by simp

subsection \<open>Failed extractions\<close>

lemma dict_set_new: "k \<notin> fst ` set d \<Longrightarrow> dict_set k v d = d @ [(k, v)]"
  by (induction d) auto

lemma fold_dict_set_distinct:
  "distinct (map fst (d @ jobs)) \<Longrightarrow>
   fold (\<lambda>job d. dict_set (fst job) (snd job) d) jobs d = d @ jobs"
proof (induction jobs arbitrary: d)
  case Nil
  show ?case by simp
next
  case (Cons j jobs)
  from Cons.prems have new: "fst j \<notin> fst ` set d" by auto
  from Cons.prems have "distinct (map fst ((d @ [j]) @ jobs))" by simp
  from Cons.IH [OF this] show ?case
    by (simp add: dict_set_new [OF new])
qed

lemma apply_async_all_distinct: "distinct (map fst jobs) \<Longrightarrow> apply_async_all jobs = jobs"
  using fold_dict_set_distinct [of "[]" jobs] by (simp add: apply_async_all_def)

lemma get_results_failed:
  "length (filter (\<lambda>kv. snd kv = PyFalse) (get_results d)) = length (filter (\<lambda>j. snd j = Raised) d)"
  by (induction d) (auto simp: get_results_def get_result_def split: async_result.splits)

lemma get_results_valid:
  "length (filter (\<lambda>kv. snd kv \<noteq> PyFalse) (get_results d)) = length (filter (\<lambda>j. snd j \<noteq> Raised) d)"
  by (induction d) (auto simp: get_results_def get_result_def split: async_result.splits)

lemma map_of_get_results:
  "distinct (map fst d) \<Longrightarrow> (fn, res) \<in> set d \<Longrightarrow> map_of (get_results d) fn = Some (get_result res)"
proof -
  assume d: "distinct (map fst d)" and m: "(fn, res) \<in> set d"
  have "distinct (map fst (get_results d))" using d by (simp add: get_results_def comp_def)
  moreover have "(fn, get_result res) \<in> set (get_results d)"
    using m by (force simp: get_results_def)
  ultimately show ?thesis by simp
qed

text \<open>
  Claim C5, as stated, has the failed record excluded from every later stage and a count
  of failures emitted. With three files of which the second fails, the stage logs the
  number of files found and two fixed messages, no count of failures; the record
  \<^verbatim>\<open>False\<close> of the failed file is in the table that is pickled and in the table
  passed to \<^verbatim>\<open>mm3.make_masks\<close>.
\<close>

theorem failed_extraction_counterexample:
  "find_image_parameters_peaks
     [(''exp_t0001xy01.tif'', Returned \<lparr>rec_fov = 1, rec_t = 1, rec_planes = [''c1'']\<rparr>),
      (''exp_t0002xy01.tif'', Raised),
      (''exp_t0003xy01.tif'', Returned \<lparr>rec_fov = 1, rec_t = 3, rec_planes = [''c1'']\<rparr>)]
   = ([InformationFmt ''Found %d image files.'' 3,
       Information ''Waiting for image analysis pool to be finished.'',
       Information ''Image analyses pool finished, getting results.''],
      [(''exp_t0001xy01.tif'', Metadata \<lparr>rec_fov = 1, rec_t = 1, rec_planes = [''c1'']\<rparr>),
       (''exp_t0002xy01.tif'', PyFalse),
       (''exp_t0003xy01.tif'', Metadata \<lparr>rec_fov = 1, rec_t = 3, rec_planes = [''c1'']\<rparr>)])
   \<and> save_metadata
       [(''exp_t0001xy01.tif'', Metadata \<lparr>rec_fov = 1, rec_t = 1, rec_planes = [''c1'']\<rparr>),
        (''exp_t0002xy01.tif'', PyFalse),
        (''exp_t0003xy01.tif'', Metadata \<lparr>rec_fov = 1, rec_t = 3, rec_planes = [''c1'']\<rparr>)] ! 1
     = PickleDump
       [(''exp_t0001xy01.tif'', Metadata \<lparr>rec_fov = 1, rec_t = 1, rec_planes = [''c1'']\<rparr>),
        (''exp_t0002xy01.tif'', PyFalse),
        (''exp_t0003xy01.tif'', Metadata \<lparr>rec_fov = 1, rec_t = 3, rec_planes = [''c1'']\<rparr>)]
   \<and> make_channel_masks
       \<lparr>do_metadata = True, do_time_table = True, do_channel_masks = True, do_slicing = True,
        find_channels_method = ''peaks'', p_output = ''TIFF'', t_end = None, user_spec_fovs = []\<rparr>
       [(''exp_t0001xy01.tif'', Metadata \<lparr>rec_fov = 1, rec_t = 1, rec_planes = [''c1'']\<rparr>),
        (''exp_t0002xy01.tif'', PyFalse),
        (''exp_t0003xy01.tif'', Metadata \<lparr>rec_fov = 1, rec_t = 3, rec_planes = [''c1'']\<rparr>)]
     = ([MakeMasks
          [(''exp_t0001xy01.tif'', Metadata \<lparr>rec_fov = 1, rec_t = 1, rec_planes = [''c1'']\<rparr>),
           (''exp_t0002xy01.tif'', PyFalse),
           (''exp_t0003xy01.tif'', Metadata \<lparr>rec_fov = 1, rec_t = 3, rec_planes = [''c1'']\<rparr>)]],
        Inr [(''exp_t0001xy01.tif'', Metadata \<lparr>rec_fov = 1, rec_t = 1, rec_planes = [''c1'']\<rparr>),
             (''exp_t0002xy01.tif'', PyFalse),
             (''exp_t0003xy01.tif'', Metadata \<lparr>rec_fov = 1, rec_t = 3, rec_planes = [''c1'']\<rparr>)])"
  by (simp add: find_image_parameters_peaks_def report_found_files_def get_results_def
      get_result_def apply_async_all_def save_metadata_def make_channel_masks_def truthy_def)

lemma get_initial_params_all_raised:
  "(fn, Raised) \<in> set jobs \<Longrightarrow> get_initial_params_all jobs t = Inl HelperRaised"
proof (induction jobs t rule: get_initial_params_all.induct)
  case (1 analyzed_imgs)
  then show ?case by simp
next
  case (2 fn' jobs analyzed_imgs)
  show ?case by simp
next
  case (3 fn' m jobs analyzed_imgs)
  then show ?case by simp
qed

lemma dict_set_values: "(a, b) \<in> set (dict_set k v d) \<Longrightarrow> b = v \<or> (a, b) \<in> set d"
  by (induction d) (auto split: if_splits)

lemma get_initial_params_all_returned:
  "\<forall>j \<in> set jobs. snd j \<noteq> Raised \<Longrightarrow> PyFalse \<notin> snd ` set t \<Longrightarrow>
   \<exists>t'. get_initial_params_all jobs t = Inr t' \<and> PyFalse \<notin> snd ` set t'"
proof (induction jobs t rule: get_initial_params_all.induct)
  case (1 analyzed_imgs)
  then show ?case by simp
next
  case (2 fn jobs analyzed_imgs)
  then show ?case by simp
next
  case (3 fn m jobs analyzed_imgs)
  have "PyFalse \<notin> snd ` set (dict_set fn (Metadata m) analyzed_imgs)"
    using "3.prems"(2) by (force dest: dict_set_values)
  with 3 show ?case by simp
qed

text \<open>
  Claim C5, amended. With the peaks method, over files with distinct names, the
  collection of results completes whatever the outcomes: every file gets a record, the
  metadata where the worker returned and \<^verbatim>\<open>False\<close> where it raised; with exactly one
  failure there are K - 1 valid records and one \<^verbatim>\<open>False\<close>. The log of the stage does
  not depend on the outcomes (no count of failures). The table with the \<^verbatim>\<open>False\<close>
  record is what is pickled and what \<^verbatim>\<open>mm3.make_time_table\<close> and
  \<^verbatim>\<open>mm3.make_masks\<close> receive. With the Unet method the extraction is called in the
  loop itself: a file whose extraction raises ends the run, and no \<^verbatim>\<open>False\<close> is ever
  stored.
\<close>

theorem failed_extraction_is_tagged_not_excluded:
  assumes "distinct (map fst jobs)"
  shows "find_image_parameters_peaks jobs =
           ([report_found_files (map fst jobs),
             Information ''Waiting for image analysis pool to be finished.'',
             Information ''Image analyses pool finished, getting results.''],
            map (\<lambda>kv. (fst kv, get_result (snd kv))) jobs)
         \<and> (length (filter (\<lambda>j. snd j = Raised) jobs) = 1 \<longrightarrow>
              length (filter (\<lambda>kv. snd kv \<noteq> PyFalse) (snd (find_image_parameters_peaks jobs)))
                = length jobs - 1
              \<and> length (filter (\<lambda>kv. snd kv = PyFalse) (snd (find_image_parameters_peaks jobs))) = 1)
         \<and> ((fn, Raised) \<in> set jobs \<longrightarrow>
              map_of (snd (find_image_parameters_peaks jobs)) fn = Some PyFalse)
         \<and> save_metadata (snd (find_image_parameters_peaks jobs)) ! 1
              = PickleDump (snd (find_image_parameters_peaks jobs))
         \<and> (do_time_table cfg \<longrightarrow>
              time_table cfg (snd (find_image_parameters_peaks jobs))
                = [MakeTimeTable (snd (find_image_parameters_peaks jobs))])
         \<and> (do_channel_masks cfg \<and> \<not> truthy (t_end cfg) \<longrightarrow>
              fst (make_channel_masks cfg (snd (find_image_parameters_peaks jobs)))
                = [MakeMasks (snd (find_image_parameters_peaks jobs))])
         \<and> ((fn, Raised) \<in> set jobs \<longrightarrow> find_image_parameters_unet jobs = Inl HelperRaised)
         \<and> ((\<forall>j \<in> set jobs. snd j \<noteq> Raised) \<longrightarrow>
              (\<exists>t. find_image_parameters_unet jobs = Inr t \<and> PyFalse \<notin> snd ` set t))"
proof -
  have t: "snd (find_image_parameters_peaks jobs) = get_results jobs"
    using assms by (simp add: find_image_parameters_peaks_def apply_async_all_distinct)
  have split: "length (filter (\<lambda>j. snd j \<noteq> Raised) jobs) + length (filter (\<lambda>j. snd j = Raised) jobs)
      = length jobs"
    using sum_length_filter_compl [of "\<lambda>j. snd j \<noteq> Raised" jobs] by simp
  have 1: "find_image_parameters_peaks jobs =
           ([report_found_files (map fst jobs),
             Information ''Waiting for image analysis pool to be finished.'',
             Information ''Image analyses pool finished, getting results.''],
            map (\<lambda>kv. (fst kv, get_result (snd kv))) jobs)"
    using assms by (simp add: find_image_parameters_peaks_def apply_async_all_distinct get_results_def)
  have 2: "length (filter (\<lambda>j. snd j = Raised) jobs) = 1 \<longrightarrow>
              length (filter (\<lambda>kv. snd kv \<noteq> PyFalse) (snd (find_image_parameters_peaks jobs)))
                = length jobs - 1
              \<and> length (filter (\<lambda>kv. snd kv = PyFalse) (snd (find_image_parameters_peaks jobs))) = 1"
    unfolding t get_results_failed get_results_valid using split by linarith
  have 3: "(fn, Raised) \<in> set jobs \<longrightarrow>
              map_of (snd (find_image_parameters_peaks jobs)) fn = Some PyFalse"
    unfolding t using map_of_get_results [OF assms, of fn Raised] by (simp add: get_result_def)
  have 4: "save_metadata (snd (find_image_parameters_peaks jobs)) ! 1
              = PickleDump (snd (find_image_parameters_peaks jobs))"
    by (simp add: save_metadata_def)
  have 5: "do_time_table cfg \<longrightarrow>
              time_table cfg (snd (find_image_parameters_peaks jobs))
                = [MakeTimeTable (snd (find_image_parameters_peaks jobs))]"
    by (simp add: time_table_def)
  have 6: "do_channel_masks cfg \<and> \<not> truthy (t_end cfg) \<longrightarrow>
              fst (make_channel_masks cfg (snd (find_image_parameters_peaks jobs)))
                = [MakeMasks (snd (find_image_parameters_peaks jobs))]"
    by (simp add: make_channel_masks_def)
  have 7: "(fn, Raised) \<in> set jobs \<longrightarrow> find_image_parameters_unet jobs = Inl HelperRaised"
    by (simp add: find_image_parameters_unet_def get_initial_params_all_raised)
  have 8: "(\<forall>j \<in> set jobs. snd j \<noteq> Raised) \<longrightarrow>
              (\<exists>t. find_image_parameters_unet jobs = Inr t \<and> PyFalse \<notin> snd ` set t)"
    using get_initial_params_all_returned [of jobs "[]"]
    by (simp add: find_image_parameters_unet_def)
  from 1 2 3 4 5 6 7 8 show ?thesis by blast
qed

theorem failed_extraction_is_tagged_not_excluded_witness:
  "snd (find_image_parameters_peaks
     [(''a_t0001xy01.tif'', Returned \<lparr>rec_fov = 1, rec_t = 1, rec_planes = []\<rparr>),
      (''a_t0001xy02.tif'', Raised)])
     = [(''a_t0001xy01.tif'', Metadata \<lparr>rec_fov = 1, rec_t = 1, rec_planes = []\<rparr>),
        (''a_t0001xy02.tif'', PyFalse)]
   \<and> length (filter (\<lambda>kv. snd kv \<noteq> PyFalse) (snd (find_image_parameters_peaks
     [(''a_t0001xy01.tif'', Returned \<lparr>rec_fov = 1, rec_t = 1, rec_planes = []\<rparr>),
      (''a_t0001xy02.tif'', Raised)]))) = 1
   \<and> map_of (snd (find_image_parameters_peaks
     [(''a_t0001xy01.tif'', Returned \<lparr>rec_fov = 1, rec_t = 1, rec_planes = []\<rparr>),
      (''a_t0001xy02.tif'', Raised)])) ''a_t0001xy02.tif'' = Some PyFalse
   \<and> find_image_parameters_unet
     [(''a_t0001xy01.tif'', Returned \<lparr>rec_fov = 1, rec_t = 1, rec_planes = []\<rparr>),
      (''a_t0001xy02.tif'', Raised)] = Inl HelperRaised"
proof -
  define jobs where "jobs =
     [(''a_t0001xy01.tif'', Returned \<lparr>rec_fov = 1, rec_t = 1, rec_planes = []\<rparr>),
      (''a_t0001xy02.tif'', Raised)]"
  have d: "distinct (map fst jobs)" by (simp add: jobs_def)
  have one: "length (filter (\<lambda>j. snd j = Raised) jobs) = 1" by (simp add: jobs_def)
  have mem: "(''a_t0001xy02.tif'', Raised) \<in> set jobs" by (simp add: jobs_def)
  note th = failed_extraction_is_tagged_not_excluded [OF d, where fn = "''a_t0001xy02.tif''"
      and cfg = "\<lparr>do_metadata = True, do_time_table = True, do_channel_masks = True,
        do_slicing = True, find_channels_method = ''peaks'', p_output = ''TIFF'', t_end = None,
        user_spec_fovs = []\<rparr>"]
  from th have "find_image_parameters_peaks jobs =
           ([report_found_files (map fst jobs),
             Information ''Waiting for image analysis pool to be finished.'',
             Information ''Image analyses pool finished, getting results.''],
            map (\<lambda>kv. (fst kv, get_result (snd kv))) jobs)"
    by (rule conjunct1)
  then have a: "snd (find_image_parameters_peaks jobs) = map (\<lambda>kv. (fst kv, get_result (snd kv))) jobs"
    by simp
  from th one have b: "length (filter (\<lambda>kv. snd kv \<noteq> PyFalse) (snd (find_image_parameters_peaks jobs))) = length jobs - 1"
    by blast
  from th mem have c: "map_of (snd (find_image_parameters_peaks jobs)) ''a_t0001xy02.tif'' = Some PyFalse"
    by blast
  from th mem have u: "find_image_parameters_unet jobs = Inl HelperRaised"
    by blast
  have l: "length jobs - 1 = 1" by (simp add: jobs_def)
  have m: "map (\<lambda>kv. (fst kv, get_result (snd kv))) jobs =
     [(''a_t0001xy01.tif'', Metadata \<lparr>rec_fov = 1, rec_t = 1, rec_planes = []\<rparr>),
      (''a_t0001xy02.tif'', PyFalse)]"
    by (simp add: jobs_def get_result_def)
  from a b c u l m show ?thesis
    unfolding jobs_def by (simp only:)
qed

subsection \<open>Missing frames and missing regions\<close>

text \<open>
  Claim C6, as stated, has the run fail with a diagnostic. With no file found the peaks
  stage logs a warning and completes with an empty table; with two regions at rows 100
  and 2000 of 2048, neither of which has room for the crop, the selection raises a bare
  IndexError.
\<close>

theorem no_frames_warns_and_continues_counterexample:
  "find_image_parameters_peaks []
     = ([Warning ''No TIFF files found'',
         Information ''Waiting for image analysis pool to be finished.'',
         Information ''Image analyses pool finished, getting results.''], [])
   \<and> good_trap_region_index [(100, 1024), (2000, 1024)] 2048 = Inl IndexError"
  by (simp add: find_image_parameters_peaks_def report_found_files_def get_results_def
      apply_async_all_def good_trap_region_index_def np_where_def np_all_axis1_def
      test_array_def top_test_def bottom_test_def)

lemma good_trap_region_index_error:
  "good_trap_region_index centroids shape0 = Inl e \<Longrightarrow> e = IndexError"
  by (auto simp: good_trap_region_index_def split: if_splits list.splits)

lemma reference_centroid_error:
  "reference_centroid centroids shape0 = Inl e \<Longrightarrow> e = IndexError"
  by (auto simp: reference_centroid_def split: sum.splits if_splits
      dest: good_trap_region_index_error)

text \<open>
  Claim C6, amended. With no input frame the run does not fail there: the script logs
  the warning ``No TIFF files found'' and goes on; the peaks stage completes with an
  empty table, and the Unet stage stops later, at \<^verbatim>\<open>file_names[0]\<close>, with IndexError.
  The reference-crop selection has no diagnostic of its own: whenever it fails, and it
  does when there is no dilated region at all (at \<^verbatim>\<open>centroids[:,0]\<close>, line 288), it
  fails with the bare IndexError.
\<close>

theorem failed_preconditions_are_not_diagnosed:
  "find_image_parameters_peaks []
     = ([Warning ''No TIFF files found'',
         Information ''Waiting for image analysis pool to be finished.'',
         Information ''Image analyses pool finished, getting results.''], [])
   \<and> first_frame_name [] = Inl IndexError
   \<and> good_trap_region_index [] shape0 = Inl IndexError
   \<and> reference_centroid [] shape0 = Inl IndexError
   \<and> (good_trap_region_index centroids shape0 = Inl e \<longrightarrow> e = IndexError)
   \<and> (reference_centroid centroids shape0 = Inl e \<longrightarrow> e = IndexError)"
proof (intro conjI impI)
  show "find_image_parameters_peaks []
     = ([Warning ''No TIFF files found'',
         Information ''Waiting for image analysis pool to be finished.'',
         Information ''Image analyses pool finished, getting results.''], [])"
    by (simp add: find_image_parameters_peaks_def report_found_files_def get_results_def
        apply_async_all_def)
  show "first_frame_name [] = Inl IndexError"
    by (simp add: first_frame_name_def file_names_def)
  show "good_trap_region_index [] shape0 = Inl IndexError"
    by (simp add: good_trap_region_index_def)
  then show "reference_centroid [] shape0 = Inl IndexError"
    by (simp add: reference_centroid_def)
next
  assume "good_trap_region_index centroids shape0 = Inl e"
  then show "e = IndexError" by (rule good_trap_region_index_error)
next
  assume "reference_centroid centroids shape0 = Inl e"
  then show "e = IndexError" by (rule reference_centroid_error)
qed

theorem failed_preconditions_are_not_diagnosed_witness:
  "good_trap_region_index [] 2048 = Inl IndexError
   \<and> reference_centroid [] 2048 = Inl IndexError
   \<and> first_frame_name [] = Inl IndexError"
  using failed_preconditions_are_not_diagnosed [of 2048 "[]" IndexError]
  by simp

subsection \<open>The order of the frames\<close>

text \<open>
  Claim C8. The claim, and the comments of lines 118 and 228 (``should sort by
  timepoint'', ``sort the file names by time''), ask for the frames in timepoint order.
  \<^verbatim>\<open>file_names.sort()\<close> compares the names as strings: with the names
  \<^verbatim>\<open>exp_t999xy01.tif\<close> and \<^verbatim>\<open>exp_t1000xy01.tif\<close> the frame order of the Unet stage
  is timepoint 1000 before timepoint 999.
\<close>

theorem file_names_sorted_as_strings:
  "file_names
     [(''exp_t999xy01.tif'', Metadata \<lparr>rec_fov = 1, rec_t = 999, rec_planes = [''c1'']\<rparr>),
      (''exp_t1000xy01.tif'', Metadata \<lparr>rec_fov = 1, rec_t = 1000, rec_planes = [''c1'']\<rparr>)]
     = [''exp_t1000xy01.tif'', ''exp_t999xy01.tif'']
   \<and> map (frame_t
     [(''exp_t999xy01.tif'', Metadata \<lparr>rec_fov = 1, rec_t = 999, rec_planes = [''c1'']\<rparr>),
      (''exp_t1000xy01.tif'', Metadata \<lparr>rec_fov = 1, rec_t = 1000, rec_planes = [''c1'']\<rparr>)])
     [''exp_t1000xy01.tif'', ''exp_t999xy01.tif''] = [Some 1000, Some 999]"
  by (simp add: file_names_def frame_t_def)

subsection \<open>The unbound name and the output sinks\<close>

lemma six_unbound: "''six'' \<notin> set module_globals"
  by (simp add: module_globals_def imported_names_def assigned_names_def)

lemma slicing_peaks:
  assumes "do_slicing cfg" "find_channels_method cfg = ''peaks''"
  shows "slicing cfg imgs channel_masks =
           ([Information ''Saving channel slices.''], Some (NameError ''six''))"
  using assms six_unbound by (simp add: slicing_def)

lemma make_channel_masks_events:
  "make_channel_masks cfg imgs = (evs, r) \<Longrightarrow> \<not> list_ex is_stack_write evs"
  using six_unbound
  by (auto simp: make_channel_masks_def split: if_splits)

lemma make_channel_masks_error:
  "make_channel_masks cfg imgs = (evs, Inl e) \<Longrightarrow> e = NameError ''six''"
  using six_unbound
  by (auto simp: make_channel_masks_def split: if_splits)

lemma time_table_events: "\<not> list_ex is_stack_write (time_table cfg imgs)"
  by (simp add: time_table_def)

text \<open>
  Claim C10. \<^verbatim>\<open>six\<close> is bound neither by an import nor by an assignment of the
  module. With the peaks method and slicing switched on, the slicing stage logs
  ``Saving channel slices.'' and raises NameError for \<^verbatim>\<open>six\<close>; the run from the time
  table on ends with that NameError and its trace holds no call that writes a channel
  stack. Recomputing the channel masks with a cutoff timepoint set (an integer other than
  0, which is what \<^verbatim>\<open>if t_end:\<close> tests) raises the same NameError.
\<close>

theorem peaks_slicing_raises_NameError:
  "''six'' \<notin> set module_globals
   \<and> (do_slicing cfg \<and> find_channels_method cfg = ''peaks'' \<longrightarrow>
        slicing cfg imgs channel_masks =
          ([Information ''Saving channel slices.''], Some (NameError ''six''))
        \<and> snd (run_after_metadata cfg imgs channel_masks) = Some (NameError ''six'')
        \<and> \<not> list_ex is_stack_write (fst (run_after_metadata cfg imgs channel_masks)))
   \<and> (do_channel_masks cfg \<and> t_end cfg = Some te \<and> te \<noteq> 0 \<longrightarrow>
        make_channel_masks cfg imgs = ([], Inl (NameError ''six'')))"
proof (intro conjI impI)
  show "''six'' \<notin> set module_globals" by (rule six_unbound)
next
  assume a: "do_slicing cfg \<and> find_channels_method cfg = ''peaks''"
  then show s: "slicing cfg imgs channel_masks =
          ([Information ''Saving channel slices.''], Some (NameError ''six''))"
    by (simp add: slicing_peaks)
  obtain ev2 r2 where m: "make_channel_masks cfg imgs = (ev2, r2)"
    by (cases "make_channel_masks cfg imgs")
  have sl: "\<And>i. slicing cfg i channel_masks =
          ([Information ''Saving channel slices.''], Some (NameError ''six''))"
    using a by (simp add: slicing_peaks)
  show "snd (run_after_metadata cfg imgs channel_masks) = Some (NameError ''six'')"
    using m make_channel_masks_error [of cfg imgs ev2]
    by (cases r2) (simp_all add: run_after_metadata_def sl)
  show "\<not> list_ex is_stack_write (fst (run_after_metadata cfg imgs channel_masks))"
    using m make_channel_masks_events [OF m] time_table_events [of cfg imgs]
    by (cases r2) (auto simp: run_after_metadata_def sl list_ex_iff)
next
  assume "do_channel_masks cfg \<and> t_end cfg = Some te \<and> te \<noteq> 0"
  then show "make_channel_masks cfg imgs = ([], Inl (NameError ''six''))"
    using six_unbound by (simp add: make_channel_masks_def truthy_def)
qed

theorem peaks_slicing_raises_NameError_witness:
  "slicing \<lparr>do_metadata = True, do_time_table = True, do_channel_masks = True, do_slicing = True,
            find_channels_method = ''peaks'', p_output = ''TIFF'', t_end = None, user_spec_fovs = []\<rparr>
      [(''exp_t0001xy01.tif'', Metadata \<lparr>rec_fov = 1, rec_t = 1, rec_planes = [''c1'']\<rparr>)]
      [(1::int, [0::nat])]
     = ([Information ''Saving channel slices.''], Some (NameError ''six''))
   \<and> make_channel_masks \<lparr>do_metadata = True, do_time_table = True, do_channel_masks = True,
            do_slicing = False, find_channels_method = ''peaks'', p_output = ''TIFF'',
            t_end = Some 5, user_spec_fovs = []\<rparr>
      [(''exp_t0001xy01.tif'', Metadata \<lparr>rec_fov = 1, rec_t = 1, rec_planes = [''c1'']\<rparr>)]
     = ([], Inl (NameError ''six''))"
  using peaks_slicing_raises_NameError
      [of "\<lparr>do_metadata = True, do_time_table = True, do_channel_masks = True, do_slicing = True,
            find_channels_method = ''peaks'', p_output = ''TIFF'', t_end = None, user_spec_fovs = []\<rparr>"
          "[(''exp_t0001xy01.tif'', Metadata \<lparr>rec_fov = 1, rec_t = 1, rec_planes = [''c1'']\<rparr>)]"
          "[(1::int, [0::nat])]" 5]
    peaks_slicing_raises_NameError
      [of "\<lparr>do_metadata = True, do_time_table = True, do_channel_masks = True,
            do_slicing = False, find_channels_method = ''peaks'', p_output = ''TIFF'',
            t_end = Some 5, user_spec_fovs = []\<rparr>"
          "[(''exp_t0001xy01.tif'', Metadata \<lparr>rec_fov = 1, rec_t = 1, rec_planes = [''c1'']\<rparr>)]"
          "[]::(int \<times> nat list) list" 5]
  by simp

text \<open>
  Claim C9, as stated, has either sink produce the channel stacks under either strategy.
  With the Unet method and the output format HDF5 the slicing stage calls no writer at
  all, and still logs ``Channel slices saved.''.
\<close>

theorem unet_hdf5_writes_nothing_counterexample:
  "slicing \<lparr>do_metadata = True, do_time_table = True, do_channel_masks = True, do_slicing = True,
            find_channels_method = ''Unet'', p_output = ''HDF5'', t_end = None, user_spec_fovs = []\<rparr>
      [(''exp_t0001xy01.tif'', Metadata \<lparr>rec_fov = 1, rec_t = 1, rec_planes = [''c1'']\<rparr>)]
      [(1::int, [0::nat])]
     = ([Information ''Saving channel slices.'', Information ''Channel slices saved.''], None)"
  by (simp add: slicing_def)

text \<open>
  Claim C9, amended. Under the Unet method (the traps having been detected in this run)
  the sink cannot be chosen: with the output format TIFF the stage calls
  \<^verbatim>\<open>mm3.save_tiffs\<close> once; with any other output format, HDF5 included, it writes
  nothing.
\<close>

theorem unet_sink_is_tiff_only:
  assumes "do_slicing cfg" "find_channels_method cfg = ''Unet''" "do_metadata cfg"
  shows "slicing cfg imgs channel_masks =
           (if p_output cfg = ''TIFF''
            then ([Information ''Saving channel slices.'', SaveTiffs imgs,
                   Information ''Channel slices saved.''], None)
            else ([Information ''Saving channel slices.'', Information ''Channel slices saved.''], None))
         \<and> (p_output cfg \<noteq> ''TIFF'' \<longrightarrow>
              \<not> list_ex is_stack_write (fst (slicing cfg imgs channel_masks)))"
  using assms by (simp add: slicing_def)

theorem unet_sink_is_tiff_only_witness:
  "slicing \<lparr>do_metadata = True, do_time_table = False, do_channel_masks = False, do_slicing = True,
            find_channels_method = ''Unet'', p_output = ''TIFF'', t_end = None, user_spec_fovs = []\<rparr>
      [(''exp_t0001xy01.tif'', Metadata \<lparr>rec_fov = 1, rec_t = 1, rec_planes = [''c1'']\<rparr>)]
      ([]::(int \<times> nat list) list)
     = ([Information ''Saving channel slices.'',
         SaveTiffs [(''exp_t0001xy01.tif'', Metadata \<lparr>rec_fov = 1, rec_t = 1, rec_planes = [''c1'']\<rparr>)],
         Information ''Channel slices saved.''], None)
   \<and> fst (slicing \<lparr>do_metadata = True, do_time_table = False, do_channel_masks = False, do_slicing = True,
            find_channels_method = ''Unet'', p_output = ''HDF5'', t_end = None, user_spec_fovs = []\<rparr>
      [(''exp_t0001xy01.tif'', Metadata \<lparr>rec_fov = 1, rec_t = 1, rec_planes = [''c1'']\<rparr>)]
      ([]::(int \<times> nat list) list))
     = [Information ''Saving channel slices.'', Information ''Channel slices saved.'']"
  using unet_sink_is_tiff_only
      [of "\<lparr>do_metadata = True, do_time_table = False, do_channel_masks = False, do_slicing = True,
            find_channels_method = ''Unet'', p_output = ''TIFF'', t_end = None, user_spec_fovs = []\<rparr>"
          "[(''exp_t0001xy01.tif'', Metadata \<lparr>rec_fov = 1, rec_t = 1, rec_planes = [''c1'']\<rparr>)]"
          "[]::(int \<times> nat list) list"]
    unet_sink_is_tiff_only
      [of "\<lparr>do_metadata = True, do_time_table = False, do_channel_masks = False, do_slicing = True,
            find_channels_method = ''Unet'', p_output = ''HDF5'', t_end = None, user_spec_fovs = []\<rparr>"
          "[(''exp_t0001xy01.tif'', Metadata \<lparr>rec_fov = 1, rec_t = 1, rec_planes = [''c1'']\<rparr>)]"
          "[]::(int \<times> nat list) list"]
  by simp

end
